theory Spec2Isabelle
  imports Main "HOL-Library.Word"
begin

unbundle bit_operations_syntax

section \<open>Settings (IotWebConfSettings.h, IotWebConf.h)\<close>

text \<open>
  The compile-time settings, at the values the header gives them when the sketch does not
  override them.
\<close>

definition IOTWEBCONF_CONFIG_START :: nat where
  "IOTWEBCONF_CONFIG_START = 0"

definition IOTWEBCONF_WORD_LEN :: nat where
  "IOTWEBCONF_WORD_LEN = 33"

definition IOTWEBCONF_PASSWORD_LEN :: nat where
  "IOTWEBCONF_PASSWORD_LEN = 33"

definition IOTWEBCONF_CONFIG_VERSION_LENGTH :: nat where
  "IOTWEBCONF_CONFIG_VERSION_LENGTH = 4"

definition IOTWEBCONF_ADMIN_USER_NAME :: string where
  "IOTWEBCONF_ADMIN_USER_NAME = ''admin''"

section \<open>C strings and Arduino Strings\<close>

text \<open>
  A byte is a \<^typ>\<open>char\<close> (eight bits); a \<open>char[]\<close> buffer is a \<^typ>\<open>string\<close> holding all
  of its bytes, terminators included; a \<open>const char*\<close> or an Arduino \<open>String\<close> is the
  \<^typ>\<open>string\<close> of its characters, without the terminator.
\<close>

abbreviation NUL :: char where
  "NUL \<equiv> CHR 0x00"

text \<open>\<open>String(buf)\<close>: the characters of a buffer up to its first terminator.\<close>

definition cstr :: "string \<Rightarrow> string" where
  "cstr buf = takeWhile (\<lambda>c. c \<noteq> NUL) buf"

text \<open>
  \<open>buf[t]\<close> on the bytes of a leaf's buffer, as \<open>writeEepromValue\<close> reads them. A leaf whose
  buffer has the leaf's length is never read further out; there the model gives the zero
  byte.
\<close>

definition charAt :: "string \<Rightarrow> nat \<Rightarrow> char" where
  "charAt s t = (if t < length s then s ! t else NUL)"

text \<open>
  \<open>strncpy(dst, src, n)\<close>: the first \<open>n\<close> bytes of \<open>dst\<close> become the characters of \<open>src\<close>,
  cut at \<open>n\<close> or filled up with terminators; the bytes of \<open>dst\<close> from \<open>n\<close> on stay.
\<close>

definition strncpy :: "string \<Rightarrow> string \<Rightarrow> nat \<Rightarrow> string" where
  "strncpy dst src n = take n (src @ replicate n NUL) @ drop n dst"

text \<open>\<open>String::toLowerCase\<close>: \<open>tolower\<close> on every character.\<close>

definition tolower :: "char \<Rightarrow> char" where
  "tolower c =
     (case map_of (zip ''ABCDEFGHIJKLMNOPQRSTUVWXYZ'' ''abcdefghijklmnopqrstuvwxyz'') c of
        None \<Rightarrow> c
      | Some d \<Rightarrow> d)"

definition toLowerCase :: "string \<Rightarrow> string" where
  "toLowerCase s = map tolower s"

text \<open>\<open>String::startsWith\<close>: false when the prefix is longer, else a comparison of the head.\<close>

definition startsWith :: "string \<Rightarrow> string \<Rightarrow> bool" where
  "startsWith s p = (if length s < length p then False else take (length p) s = p)"

text \<open>
  \<open>String::replace(find, replace)\<close>: nothing happens on an empty string or an empty pattern;
  else every occurrence is replaced. The occurrences are taken left to right, which is what
  the library does for a pattern that cannot overlap itself, as the placeholders \<open>{v}\<close> and
  \<open>{u}\<close> here.
\<close>

function replace :: "string \<Rightarrow> string \<Rightarrow> string \<Rightarrow> string" where
  "replace f r s =
     (if s = [] \<or> f = [] then s
      else if take (length f) s = f then r @ replace f r (drop (length f) s)
      else hd s # replace f r (tl s))"
  by pat_completeness auto
termination
  by (relation "measure (\<lambda>(f, r, s). length s)") auto

text \<open>\<open>String(n)\<close> for an unsigned number: its decimal digits.\<close>

fun decimal :: "nat \<Rightarrow> string" where
  "decimal n =
     (if n < 10 then [''0123456789'' ! n]
      else decimal (n div 10) @ [''0123456789'' ! (n mod 10)])"

declare decimal.simps [simp del]
declare replace.simps [simp del]

section \<open>The persistent store (EEPROM)\<close>

text \<open>
  Modelled from the spec: the Store Adapter of section 6 (\<open>openRegion(totalBytes)\<close>,
  \<open>readByte(offset)\<close>, \<open>writeByte(offset, value)\<close>, \<open>closeRegion()\<close>), which is the
  platform's \<open>EEPROM\<close> object and not part of the sources. The store is byte-addressable,
  its bytes survive a close and a reopen, and a region is open between \<open>begin\<close> and
  \<open>end\<close>; offsets outside the open region read as zero and are not written. The store
  also keeps the sizes of the regions that were opened, in order, so that what an operation
  asked for can still be told once the region is closed.
\<close>

record eeprom =
  cells :: "nat \<Rightarrow> char"
  opened :: "nat option"
  begun :: "nat list"

definition EEPROM_begin :: "nat \<Rightarrow> eeprom \<Rightarrow> eeprom" where
  "EEPROM_begin n E = E\<lparr>opened := Some n, begun := begun E @ [n]\<rparr>"

definition EEPROM_end :: "eeprom \<Rightarrow> eeprom" where
  "EEPROM_end E = E\<lparr>opened := None\<rparr>"

definition EEPROM_read :: "eeprom \<Rightarrow> nat \<Rightarrow> char" where
  "EEPROM_read E a =
     (case opened E of
        None \<Rightarrow> NUL
      | Some n \<Rightarrow> if a < n then cells E a else NUL)"

definition EEPROM_write :: "nat \<Rightarrow> char \<Rightarrow> eeprom \<Rightarrow> eeprom" where
  "EEPROM_write a v E =
     (case opened E of
        None \<Rightarrow> E
      | Some n \<Rightarrow> if a < n then E\<lparr>cells := (cells E)(a := v)\<rparr> else E)"

section \<open>The web request and what the library sends and calls\<close>

text \<open>
  \<open>WebRequestWrapper\<close> (its \<open>StandardWebRequestWrapper\<close> forwards every call to the web
  server): the request's data are fields; the calls that answer it, and the calls into
  hooks and platform services, are recorded in order as events.
\<close>

record WebRequestWrapper =
  hostHeader :: string
  localIP :: "32 word"
  uri :: string
  args :: "string \<rightharpoonup> string"
  authenticate :: "string \<Rightarrow> string \<Rightarrow> bool"

definition hasArg :: "WebRequestWrapper \<Rightarrow> string \<Rightarrow> bool" where
  "hasArg req name = (args req name \<noteq> None)"

definition arg :: "WebRequestWrapper \<Rightarrow> string \<Rightarrow> string" where
  "arg req name = (case args req name of None \<Rightarrow> [] | Some v \<Rightarrow> v)"

text \<open>\<open>CONTENT_LENGTH_UNKNOWN\<close> is \<open>((size_t) -1)\<close> of the web server, on 32 bits.\<close>

definition CONTENT_LENGTH_UNKNOWN :: nat where
  "CONTENT_LENGTH_UNKNOWN = 2 ^ 32 - 1"

datatype event =
    RequestAuthentication
  | SendHeader string string bool
  | SetContentLength nat
  | Send nat string string
  | SendContent string
  | Stop
  | FormInput string string string "string option"
  | GroupHeading string
  | ConfigSaving nat
  | ConfigSaved
  | WiFiHostname string
  | MDNSBegin string
  | MDNSAddService string string nat

section \<open>The parameter registry\<close>

text \<open>
  Modelled from the spec: \<open>ConfigItem\<close>, \<open>ParameterGroup\<close>, \<open>TextParameter\<close> and
  \<open>PasswordParameter\<close> are declared in IotWebConfParameter.h, which is not among the
  sources. Sections 3 and 4.1 of the spec give the data and the contract of each operation.

  A leaf has a label, an identifier, a default, a current value in a buffer of fixed
  capacity, a visibility flag and an error message; a group has an identifier, an optional
  label and its children in registration order.
\<close>

record ConfigItem =
  label :: string
  getId :: string
  valueBuffer :: string
  getLength :: nat
  defaultValue :: string
  visible :: bool
  errorMessage :: "string option"

datatype item =
    Leaf ConfigItem
  | Group string "string option" "item list"

text \<open>
  Modelled from the spec: \<open>storageSize()\<close>, "for a leaf, its fixed capacity; for a group,
  recursive sum over children, in registration order".
\<close>

fun getStorageSize :: "item \<Rightarrow> nat" where
  "getStorageSize (Leaf l) = getLength l"
| "getStorageSize (Group i lb cs) = sum_list (map getStorageSize cs)"

text \<open>
  Modelled from the spec: \<open>applyDefaultValue()\<close>, "leaf copies its default into its current
  buffer; group recurses over children in order". The copy into the fixed-capacity buffer
  is the bounded copy that \<open>init()\<close> uses on the same kind of buffer.
\<close>

definition applyDefaultLeaf :: "ConfigItem \<Rightarrow> ConfigItem" where
  "applyDefaultLeaf l = l\<lparr>valueBuffer := strncpy (valueBuffer l) (defaultValue l) (getLength l)\<rparr>"

fun applyDefaultValue :: "item \<Rightarrow> item" where
  "applyDefaultValue (Leaf l) = Leaf (applyDefaultLeaf l)"
| "applyDefaultValue (Group i lb cs) = Group i lb (map applyDefaultValue cs)"

text \<open>
  Modelled from the spec: \<open>loadValue(consumer)\<close>, "leaf requests exactly \<open>storageSize()\<close>
  bytes via a caller-supplied sequential byte-span consumer (one call per leaf, in
  traversal order) and copies them into its current buffer; group recurses". The consumer
  is a closure over the caller's variables, here a state \<open>'s\<close>: given the length it returns
  the bytes and the new state.
\<close>

fun loadValue :: "(nat \<Rightarrow> 's \<Rightarrow> string \<times> 's) \<Rightarrow> item \<Rightarrow> 's \<Rightarrow> item \<times> 's"
  and loadValues :: "(nat \<Rightarrow> 's \<Rightarrow> string \<times> 's) \<Rightarrow> item list \<Rightarrow> 's \<Rightarrow> item list \<times> 's"
where
  "loadValue f (Leaf l) s =
     (case f (getLength l) s of (bytes, s') \<Rightarrow> (Leaf (l\<lparr>valueBuffer := bytes\<rparr>), s'))"
| "loadValue f (Group i lb cs) s =
     (case loadValues f cs s of (cs', s') \<Rightarrow> (Group i lb cs', s'))"
| "loadValues f [] s = ([], s)"
| "loadValues f (c # cs) s =
     (case loadValue f c s of (c', s1) \<Rightarrow>
        (case loadValues f cs s1 of (cs', s2) \<Rightarrow> (c' # cs', s2)))"

text \<open>
  Modelled from the spec: \<open>storeValue(producer)\<close>, "mirror of \<open>loadValue\<close>, leaf hands its
  current buffer's bytes to the producer in the same traversal order". The producer gets
  the buffer and the leaf's length.
\<close>

fun storeValue :: "(string \<Rightarrow> nat \<Rightarrow> 's \<Rightarrow> 's) \<Rightarrow> item \<Rightarrow> 's \<Rightarrow> 's" where
  "storeValue f (Leaf l) s = f (valueBuffer l) (getLength l) s"
| "storeValue f (Group i lb cs) s = fold (storeValue f) cs s"

text \<open>Modelled from the spec: \<open>clearErrorMessage()\<close>, "group recurses".\<close>

fun clearErrorMessage :: "item \<Rightarrow> item" where
  "clearErrorMessage (Leaf l) = Leaf (l\<lparr>errorMessage := None\<rparr>)"
| "clearErrorMessage (Group i lb cs) = Group i lb (map clearErrorMessage cs)"

text \<open>
  Modelled from the spec: \<open>renderHtml(hasSubmittedData, requestContext)\<close>, "leaf renders a
  labeled input pre-filled either from submitted form data (if \<open>hasSubmittedData\<close>) or
  current value, plus any error message; invisible items render nothing [...]; group
  recurses, concatenating markup and propagating a group label heading if present". The
  markup is not modelled: a rendered input is the event \<open>FormInput\<close> with the label, the
  identifier, the value shown and the error message, a heading the event \<open>GroupHeading\<close>.
\<close>

fun renderHtml :: "bool \<Rightarrow> WebRequestWrapper \<Rightarrow> item \<Rightarrow> event list" where
  "renderHtml dataArrived req (Leaf l) =
     (if visible l
      then [FormInput (label l) (getId l)
              (if dataArrived then arg req (getId l) else cstr (valueBuffer l))
              (errorMessage l)]
      else [])"
| "renderHtml dataArrived req (Group i lb cs) =
     (case lb of None \<Rightarrow> [] | Some h \<Rightarrow> [GroupHeading h])
     @ concat (map (renderHtml dataArrived req) cs)"

text \<open>
  Modelled from the spec: \<open>update(requestContext)\<close>, "leaf reads its identifier's submitted
  value from the external form-request accessor and copies (length-capped to its
  byte-capacity) into its current buffer; group recurses".
\<close>

definition updateLeaf :: "WebRequestWrapper \<Rightarrow> ConfigItem \<Rightarrow> ConfigItem" where
  "updateLeaf req l =
     l\<lparr>valueBuffer := strncpy (valueBuffer l) (arg req (getId l)) (getLength l)\<rparr>"

fun update :: "WebRequestWrapper \<Rightarrow> item \<Rightarrow> item" where
  "update req (Leaf l) = Leaf (updateLeaf req l)"
| "update req (Group i lb cs) = Group i lb (map (update req) cs)"

text \<open>The leaves of a tree in traversal order, and the well-formedness of their buffers.\<close>

fun leaves :: "item \<Rightarrow> ConfigItem list" where
  "leaves (Leaf l) = [l]"
| "leaves (Group i lb cs) = concat (map leaves cs)"

definition inCapacity :: "item \<Rightarrow> bool" where
  "inCapacity t = list_all (\<lambda>l. length (valueBuffer l) = getLength l) (leaves t)"

section \<open>The class IotWebConf (IotWebConf.h, IotWebConf.cpp)\<close>

text \<open>
  \<open>HtmlFormatProvider\<close>: what each of its virtual getters returns. The built-in fragments
  are the \<open>PROGMEM\<close> constants of IotWebConf.h; \<open>setHtmlFormatProvider\<close> replaces them.
\<close>

record HtmlFormatProvider =
  getHead :: string
  getStyle :: string
  getScript :: string
  getHeadExtension :: string
  getHeadEnd :: string
  getFormStart :: string
  getFormEnd :: string
  getFormSaved :: string
  getEnd :: string
  getUpdate :: string
  getConfigVer :: string

text \<open>
  The members of the object. \<open>_thingName\<close> and \<open>_apPassword\<close> are the value buffers of
  \<open>_thingNameParameter\<close> and \<open>_apPasswordParameter\<close>. The groups \<open>_systemParameters\<close>,
  \<open>_customParameterGroups\<close>, \<open>_hiddenParameters\<close> and \<open>_allParameters\<close> hold pointers to
  their children; the model keeps every node once (the two system leaves, and the items
  added to each group) and builds the groups from them. The hooks \<open>_configSavingCallback\<close>
  and \<open>_configSavedCallback\<close> are recorded as set or not; calling one is an event.
  \<open>_updatePath\<close> is read by \<open>handleConfig\<close> and kept as a member, null unless set, though
  the class declaration does not list it.

  Two reads of the code leave the string or the array they start in, and the model keeps
  the bytes they then meet. \<open>_configVersion[t]\<close> is read for \<open>t\<close> from 0 to 3 whatever the
  length of the version: \<open>configVersionBehind\<close> gives the bytes in memory behind the
  terminator of the version string. \<open>_thingName\<close> and \<open>_apPassword\<close> are read as strings,
  up to the first terminator, which a full buffer does not have: \<open>_apPassword\<close> follows
  \<open>_thingName\<close> in the object, and \<open>behindApPassword\<close> gives the bytes that follow
  \<open>_apPassword\<close>, up to their first terminator.
\<close>

record IotWebConf =
  thingNameParameter :: ConfigItem
  apPasswordParameter :: ConfigItem
  systemItems :: "item list"
  customItems :: "item list"
  hiddenItems :: "item list"
  initialApPassword :: string
  configVersion :: string
  configVersionBehind :: "nat \<Rightarrow> char"
  behindApPassword :: string
  updatePath :: "string option"
  configSavingCallback :: bool
  configSavedCallback :: bool
  htmlFormatProvider :: HtmlFormatProvider

text \<open>The object, the store it reads and writes, and the events so far.\<close>

record world =
  conf :: IotWebConf
  EEPROM :: eeprom
  out :: "event list"

text \<open>
  The form validator is a function of the sketch. It answers with a boolean and may write
  to the object (error messages of the sketch's own parameters, typically).
\<close>

type_synonym formValidator = "WebRequestWrapper \<Rightarrow> IotWebConf \<Rightarrow> bool \<times> IotWebConf"

definition systemParameters :: "IotWebConf \<Rightarrow> item" where
  "systemParameters c =
     Group ''iwcSys'' (Some ''System configuration'')
       (Leaf (thingNameParameter c) # Leaf (apPasswordParameter c) # systemItems c)"

definition customParameterGroups :: "IotWebConf \<Rightarrow> item" where
  "customParameterGroups c = Group ''iwcCustom'' None (customItems c)"

definition hiddenParameters :: "IotWebConf \<Rightarrow> item" where
  "hiddenParameters c = Group ''hidden'' None (hiddenItems c)"

definition allParameters :: "IotWebConf \<Rightarrow> item" where
  "allParameters c =
     Group ''iwcAll'' None [systemParameters c, customParameterGroups c, hiddenParameters c]"

text \<open>
  \<open>_configVersion[t]\<close>: a character of the version, its terminator, or a byte behind it.
\<close>

definition configVersionAt :: "IotWebConf \<Rightarrow> nat \<Rightarrow> char" where
  "configVersionAt c t =
     (if t < length (configVersion c) then configVersion c ! t
      else if t = length (configVersion c) then NUL
      else configVersionBehind c (t - Suc (length (configVersion c))))"

text \<open>
  \<open>_thingName\<close> and \<open>_apPassword\<close> read as strings (\<open>String(this->_thingName)\<close>, or the
  pointer handed to a function that takes a string): the bytes from the start of the buffer
  up to the first terminator, in the buffer or behind it. \<open>_apPassword\<close> follows \<open>_thingName\<close>
  in the object, so a thing name without terminator runs on into the password. The bytes
  behind \<open>_apPassword\<close> are a list; a read that finds no terminator in it ends with it.
\<close>

definition thingNameString :: "IotWebConf \<Rightarrow> string" where
  "thingNameString c =
     cstr (valueBuffer (thingNameParameter c) @ valueBuffer (apPasswordParameter c)
           @ behindApPassword c)"

definition apPasswordString :: "IotWebConf \<Rightarrow> string" where
  "apPasswordString c = cstr (valueBuffer (apPasswordParameter c) @ behindApPassword c)"

text \<open>
  An operation on a group changes the nodes below it in place. In the model the operation
  returns the changed group, and these functions put its nodes back into the object.
\<close>

fun set_systemParameters :: "item \<Rightarrow> IotWebConf \<Rightarrow> IotWebConf" where
  "set_systemParameters (Group i lb (Leaf tn # Leaf ap # rest)) c =
     c\<lparr>thingNameParameter := tn, apPasswordParameter := ap, systemItems := rest\<rparr>"
| "set_systemParameters g c = c"

fun set_customParameterGroups :: "item \<Rightarrow> IotWebConf \<Rightarrow> IotWebConf" where
  "set_customParameterGroups (Group i lb cs) c = c\<lparr>customItems := cs\<rparr>"
| "set_customParameterGroups g c = c"

fun set_hiddenParameters :: "item \<Rightarrow> IotWebConf \<Rightarrow> IotWebConf" where
  "set_hiddenParameters (Group i lb cs) c = c\<lparr>hiddenItems := cs\<rparr>"
| "set_hiddenParameters g c = c"

fun set_allParameters :: "item \<Rightarrow> IotWebConf \<Rightarrow> IotWebConf" where
  "set_allParameters (Group i lb [sys, cus, hid]) c =
     set_hiddenParameters hid (set_customParameterGroups cus (set_systemParameters sys c))"
| "set_allParameters g c = c"

text \<open>
  The constructor. The two system parameters are built by the member initialisers of
  IotWebConf.h; the constructor sets the default thing name and registers the groups. Its
  write to \<open>_apTimeoutParameter\<close> names a member that the class does not declare and is
  left out, as are the DNS server and the web server, which none of the functions below
  uses. The buffers \<open>_thingName\<close> and \<open>_apPassword\<close> start zeroed, as in an object of static
  storage. The last two arguments are no arguments of the constructor: they are the bytes
  that lie in memory behind the version string and behind \<open>_apPassword\<close>.
\<close>

definition IotWebConf_new ::
  "string \<Rightarrow> string \<Rightarrow> string \<Rightarrow> HtmlFormatProvider \<Rightarrow> (nat \<Rightarrow> char) \<Rightarrow> string \<Rightarrow> IotWebConf" where
  "IotWebConf_new defaultThingName initialApPassword' configVersion' provider
       behindVersion behindPassword =
     \<lparr>thingNameParameter =
        \<lparr>label = ''Thing name'', getId = ''iwcThingName'',
         valueBuffer = replicate IOTWEBCONF_WORD_LEN NUL, getLength = IOTWEBCONF_WORD_LEN,
         defaultValue = defaultThingName, visible = True, errorMessage = None\<rparr>,
      apPasswordParameter =
        \<lparr>label = ''AP password'', getId = ''iwcApPassword'',
         valueBuffer = replicate IOTWEBCONF_PASSWORD_LEN NUL,
         getLength = IOTWEBCONF_PASSWORD_LEN,
         defaultValue = [], visible = True, errorMessage = None\<rparr>,
      systemItems = [], customItems = [], hiddenItems = [],
      initialApPassword = initialApPassword', configVersion = configVersion',
      configVersionBehind = behindVersion, behindApPassword = behindPassword,
      updatePath = None, configSavingCallback = False, configSavedCallback = False,
      htmlFormatProvider = provider\<rparr>"

definition addParameterGroup :: "item \<Rightarrow> IotWebConf \<Rightarrow> IotWebConf" where
  "addParameterGroup g c = c\<lparr>customItems := customItems c @ [g]\<rparr>"

definition addHiddenParameter :: "item \<Rightarrow> IotWebConf \<Rightarrow> IotWebConf" where
  "addHiddenParameter p c = c\<lparr>hiddenItems := hiddenItems c @ [p]\<rparr>"

definition addSystemParameter :: "item \<Rightarrow> IotWebConf \<Rightarrow> IotWebConf" where
  "addSystemParameter p c = c\<lparr>systemItems := systemItems c @ [p]\<rparr>"

definition getThingName :: "IotWebConf \<Rightarrow> string" where
  "getThingName c = valueBuffer (thingNameParameter c)"

definition initConfig :: "IotWebConf \<Rightarrow> nat" where
  "initConfig c = getStorageSize (allParameters c)"

text \<open>The two loops over \<open>t\<close> from \<open>0\<close> to \<open>length - 1\<close>.\<close>

definition readEepromValue :: "eeprom \<Rightarrow> nat \<Rightarrow> nat \<Rightarrow> string" where
  "readEepromValue E start len = map (\<lambda>t. EEPROM_read E (start + t)) [0..<len]"

text \<open>
  The byte \<open>valueBuffer[t]\<close> handed to the store. In a leaf whose buffer has the leaf's
  length the read is always inside the buffer.
\<close>

definition writeEepromValue :: "eeprom \<Rightarrow> nat \<Rightarrow> string \<Rightarrow> nat \<Rightarrow> eeprom" where
  "writeEepromValue E start valueBuffer' len =
     fold (\<lambda>t E'. EEPROM_write (start + t) (charAt valueBuffer' t) E') [0..<len] E"

text \<open>
  The loop over \<open>t\<close> from 0 to \<open>IOTWEBCONF_CONFIG_VERSION_LENGTH - 1\<close> compares the byte of the
  store with \<open>_configVersion[t]\<close> and returns at the first byte that differs.
\<close>

fun testConfigVersionFrom :: "IotWebConf \<Rightarrow> eeprom \<Rightarrow> nat list \<Rightarrow> bool" where
  "testConfigVersionFrom c E [] = True"
| "testConfigVersionFrom c E (t # ts) =
     (if EEPROM_read E (IOTWEBCONF_CONFIG_START + t) \<noteq> configVersionAt c t then False
      else testConfigVersionFrom c E ts)"

definition testConfigVersion :: "IotWebConf \<Rightarrow> eeprom \<Rightarrow> bool" where
  "testConfigVersion c E = testConfigVersionFrom c E [0..<IOTWEBCONF_CONFIG_VERSION_LENGTH]"

definition saveConfigVersion :: "IotWebConf \<Rightarrow> eeprom \<Rightarrow> eeprom" where
  "saveConfigVersion c E =
     fold (\<lambda>t E'. EEPROM_write (IOTWEBCONF_CONFIG_START + t) (configVersionAt c t) E')
       [0..<IOTWEBCONF_CONFIG_VERSION_LENGTH] E"

text \<open>
  \<open>loadConfig\<close>. Both branches of the \<open>if\<close> return, so the \<open>EEPROM.end()\<close> that follows it
  in the source is never reached: the function has no call of \<open>EEPROM_end\<close>. The consumer
  handed to \<open>loadValue\<close> captures \<open>start\<close>.
\<close>

definition loadConfig :: "world \<Rightarrow> bool \<times> world" where
  "loadConfig w =
     (let size' = initConfig (conf w);
          E = EEPROM_begin
                (IOTWEBCONF_CONFIG_START + IOTWEBCONF_CONFIG_VERSION_LENGTH + size') (EEPROM w)
      in if testConfigVersion (conf w) E
         then
           let start = IOTWEBCONF_CONFIG_START + IOTWEBCONF_CONFIG_VERSION_LENGTH;
               loaded = loadValue (\<lambda>len start'. (readEepromValue E start' len, start' + len))
                          (allParameters (conf w)) start
           in (True, w\<lparr>conf := set_allParameters (fst loaded) (conf w), EEPROM := E\<rparr>)
         else
           (False,
            w\<lparr>conf := set_allParameters (applyDefaultValue (allParameters (conf w))) (conf w),
              EEPROM := E\<rparr>))"

text \<open>
  \<open>saveConfig\<close>. The producer handed to \<open>storeValue\<close> captures \<open>start\<close> and writes to the
  store. The assignment to \<open>_apTimeoutMs\<close> names members that the class does not declare
  and is left out.
\<close>

definition saveConfig :: "world \<Rightarrow> world" where
  "saveConfig w =
     (let size' = initConfig (conf w);
          w1 = (if configSavingCallback (conf w) then w\<lparr>out := out w @ [ConfigSaving size']\<rparr>
                else w);
          E1 = EEPROM_begin
                 (IOTWEBCONF_CONFIG_START + IOTWEBCONF_CONFIG_VERSION_LENGTH + size') (EEPROM w1);
          E2 = saveConfigVersion (conf w1) E1;
          start = IOTWEBCONF_CONFIG_START + IOTWEBCONF_CONFIG_VERSION_LENGTH;
          stored = storeValue
                     (\<lambda>data len (E', start'). (writeEepromValue E' start' data len, start' + len))
                     (allParameters (conf w1)) (E2, start);
          w2 = w1\<lparr>EEPROM := EEPROM_end (fst stored)\<rparr>
      in if configSavedCallback (conf w2) then w2\<lparr>out := out w2 @ [ConfigSaved]\<rparr> else w2)"


text \<open>
  \<open>validateForm\<close>: clear the messages, call the external validator if there is one, then
  the two built-in checks, each of which sets its message and clears \<open>valid\<close>.
\<close>

definition validateForm :: "formValidator option \<Rightarrow> WebRequestWrapper \<Rightarrow> IotWebConf \<Rightarrow> bool \<times> IotWebConf" where
  "validateForm formValidator req c =
     (let c0 = set_customParameterGroups (clearErrorMessage (customParameterGroups c))
                 (set_systemParameters (clearErrorMessage (systemParameters c)) c);
          (valid0, c1) = (case formValidator of None \<Rightarrow> (True, c0) | Some f \<Rightarrow> f req c0);
          l = length (arg req (getId (thingNameParameter c1)));
          (valid1, c2) =
            (if 3 > l
             then (False, c1\<lparr>thingNameParameter := (thingNameParameter c1)
                          \<lparr>errorMessage := Some ''Give a name with at least 3 characters.''\<rparr>\<rparr>)
             else (valid0, c1));
          l' = length (arg req (getId (apPasswordParameter c2)));
          (valid2, c3) =
            (if 0 < l' \<and> l' < 8
             then (False, c2\<lparr>apPasswordParameter := (apPasswordParameter c2)
                          \<lparr>errorMessage := Some ''Password length must be at least 8 characters.''\<rparr>\<rparr>)
             else (valid1, c2))
      in (valid2, c3))"

text \<open>The branch of \<open>handleConfig\<close> that displays the config portal.\<close>

definition configPortal :: "bool \<Rightarrow> WebRequestWrapper \<Rightarrow> IotWebConf \<Rightarrow> event list" where
  "configPortal dataArrived req c =
     (let p = htmlFormatProvider c;
          content = replace ''{v}'' ''Config ESP'' (getHead p) @ getScript p @ getStyle p
                    @ getHeadExtension p @ getHeadEnd p @ getFormStart p;
          content' = getFormEnd p
                     @ (case updatePath c of None \<Rightarrow> []
                        | Some u \<Rightarrow> replace ''{u}'' u (getUpdate p))
                     @ replace ''{v}'' (configVersion c) (getConfigVer p)
                     @ getEnd p
      in [SendHeader ''Cache-Control'' ''no-cache, no-store, must-revalidate'' False,
          SendHeader ''Pragma'' ''no-cache'' False,
          SendHeader ''Expires'' ''-1'' False,
          SetContentLength CONTENT_LENGTH_UNKNOWN,
          Send 200 ''text/html; charset=UTF-8'' [],
          SendContent content]
         @ renderHtml dataArrived req (systemParameters c)
         @ renderHtml dataArrived req (customParameterGroups c)
         @ [SendContent content', SendContent [], Stop])"

text \<open>The page that the saving branch of \<open>handleConfig\<close> sends.\<close>

definition savedPage :: "IotWebConf \<Rightarrow> event list" where
  "savedPage c =
     (let p = htmlFormatProvider c;
          page = replace ''{v}'' ''Config ESP'' (getHead p) @ getScript p @ getStyle p
                 @ getHeadExtension p @ getHeadEnd p @ ''Configuration saved. ''
                 @ ''Return to <a href='' @ [CHR 0x27] @ ''/'' @ [CHR 0x27] @ ''>home page</a>.''
                 @ getEnd p
      in [SendHeader ''Content-Length'' (decimal (length page)) False,
          Send 200 ''text/html; charset=UTF-8'' page])"

text \<open>
  \<open>handleConfig\<close>. \<open>!dataArrived || !validateForm(...)\<close> calls \<open>validateForm\<close> only when the
  data arrived.
\<close>

definition handleConfig :: "formValidator option \<Rightarrow> WebRequestWrapper \<Rightarrow> world \<Rightarrow> world" where
  "handleConfig formValidator req w =
     (if \<not> authenticate req IOTWEBCONF_ADMIN_USER_NAME
             (apPasswordString (conf w))
      then w\<lparr>out := out w @ [RequestAuthentication]\<rparr>
      else
        let dataArrived = hasArg req ''iotSave'' in
        if \<not> dataArrived
        then w\<lparr>out := out w @ configPortal dataArrived req (conf w)\<rparr>
        else
          (case validateForm formValidator req (conf w) of (valid, c1) \<Rightarrow>
             if \<not> valid
             then w\<lparr>conf := c1, out := out w @ configPortal dataArrived req c1\<rparr>
             else
               let c2 = set_systemParameters (update req (systemParameters c1)) c1;
                   c3 = set_customParameterGroups (update req (customParameterGroups c2)) c2;
                   w1 = saveConfig (w\<lparr>conf := c3\<rparr>)
               in w1\<lparr>out := out w1 @ savedPage (conf w1)\<rparr>))"

text \<open>\<open>isIp\<close>: the loop returns false at the first character that is no dot and no digit.\<close>

fun isIp :: "string \<Rightarrow> bool" where
  "isIp [] = True"
| "isIp (c # cs) =
     (if c \<noteq> CHR ''.'' \<and> ((of_char c :: int) < of_char (CHR ''0'') \<or> (of_char c :: int) > of_char (CHR ''9''))
      then False
      else isIp cs)"

definition toStringIp :: "32 word \<Rightarrow> string" where
  "toStringIp ip =
     concat (map (\<lambda>i. decimal (unat (drop_bit (8 * i) ip AND 0xFF)) @ ''.'') [0..<3])
     @ decimal (unat (drop_bit (8 * 3) ip AND 0xFF))"

definition handleCaptivePortal :: "WebRequestWrapper \<Rightarrow> world \<Rightarrow> bool \<times> world" where
  "handleCaptivePortal req w =
     (let host = hostHeader req;
          thingName = toLowerCase (thingNameString (conf w))
      in if \<not> isIp host \<and> \<not> startsWith host thingName
         then (True,
               w\<lparr>out := out w @ [SendHeader ''Location'' (''http://'' @ toStringIp (localIP req)) True,
                                 Send 302 ''text/plain'' [],
                                 Stop]\<rparr>)
         else (False, w))"

definition handleNotFound :: "WebRequestWrapper \<Rightarrow> world \<Rightarrow> world" where
  "handleNotFound req w =
     (case handleCaptivePortal req w of (handled, w1) \<Rightarrow>
        if handled then w1
        else
          let message = ''Requested a non-existing page'' @ [CHR 0x0A, CHR 0x0A] @ ''URI: ''
                        @ uri req @ [CHR 0x0A]
          in w1\<lparr>out := out w1 @
                 [SendHeader ''Cache-Control'' ''no-cache, no-store, must-revalidate'' False,
                  SendHeader ''Pragma'' ''no-cache'' False,
                  SendHeader ''Expires'' ''-1'' False,
                  SendHeader ''Content-Length'' (decimal (length message)) False,
                  Send 404 ''text/plain'' message]\<rparr>)"

section \<open>Notions for the statements, and concrete objects, stores and requests\<close>

text \<open>
  A provider with short fragments, the object a sketch constructs with the thing name
  \<open>mything\<close>, a store that was never written, and some requests.
\<close>

definition exampleProvider :: HtmlFormatProvider where
  "exampleProvider =
     \<lparr>getHead = ''<head><title>{v}</title>'', getStyle = ''<style></style>'',
      getScript = ''<script></script>'', getHeadExtension = [], getHeadEnd = ''</head><body>'',
      getFormStart = ''<form>'', getFormEnd = ''</form>'', getFormSaved = ''saved'',
      getEnd = ''</body>'', getUpdate = ''<a href={u}>update</a>'',
      getConfigVer = ''<div>{v}</div>''\<rparr>"

definition exampleConf :: IotWebConf where
  "exampleConf =
     IotWebConf_new ''mything'' ''initialpw'' ''init'' exampleProvider (\<lambda>t. CHR ''X'') []"

definition freshStore :: eeprom where
  "freshStore = \<lparr>cells = (\<lambda>a. CHR 0xFF), opened = None, begun = []\<rparr>"

definition freshWorld :: world where
  "freshWorld = \<lparr>conf = exampleConf, EEPROM = freshStore, out = []\<rparr>"

text \<open>The same object once the defaults are in its buffers.\<close>

definition defaultedWorld :: world where
  "defaultedWorld =
     freshWorld\<lparr>conf := set_allParameters (applyDefaultValue (allParameters exampleConf)) exampleConf\<rparr>"

text \<open>The same for a device that the sketch names \<open>MyThing\<close>.\<close>

definition myThingWorld :: world where
  "myThingWorld =
     freshWorld\<lparr>conf :=
       set_allParameters
         (applyDefaultValue (allParameters
            (IotWebConf_new ''MyThing'' ''initialpw'' ''init'' exampleProvider (\<lambda>t. CHR ''X'') [])))
         (IotWebConf_new ''MyThing'' ''initialpw'' ''init'' exampleProvider (\<lambda>t. CHR ''X'') [])\<rparr>"

text \<open>The device's address \<open>192.168.4.1\<close> has its first octet in the low byte.\<close>

definition evilRequest :: WebRequestWrapper where
  "evilRequest =
     \<lparr>hostHeader = ''evil.example.com'', localIP = 0x0104A8C0, uri = ''/'',
      args = Map.empty, authenticate = (\<lambda>u p. True)\<rparr>"

definition ipRequest :: WebRequestWrapper where
  "ipRequest = evilRequest\<lparr>hostHeader := ''192.168.4.1''\<rparr>"

definition mixedCaseRequest :: WebRequestWrapper where
  "mixedCaseRequest = evilRequest\<lparr>hostHeader := ''MyThing.local''\<rparr>"

text \<open>A character that \<open>isIp\<close> lets pass.\<close>

definition dotOrDigit :: "char \<Rightarrow> bool" where
  "dotOrDigit c \<longleftrightarrow> c = CHR ''.'' \<or> c \<in> set ''0123456789''"


text \<open>
  Names for two stages of \<open>validateForm\<close>, to state what it does: the object once the two
  \<open>clearErrorMessage\<close> calls are done, and the call of the external validator on that
  object (valid and no change when none is registered).
\<close>

definition clearedMessages :: "IotWebConf \<Rightarrow> IotWebConf" where
  "clearedMessages c =
     set_customParameterGroups (clearErrorMessage (customParameterGroups c))
       (set_systemParameters (clearErrorMessage (systemParameters c)) c)"

definition externalValidation :: "formValidator option \<Rightarrow> WebRequestWrapper \<Rightarrow> IotWebConf \<Rightarrow> bool \<times> IotWebConf" where
  "externalValidation formValidator req c =
     (case formValidator of
        None \<Rightarrow> (True, clearedMessages c)
      | Some f \<Rightarrow> f req (clearedMessages c))"

text \<open>A submission of the form with a thing name and an AP password, from an authenticated client.\<close>

definition formRequest :: "string \<Rightarrow> string \<Rightarrow> WebRequestWrapper" where
  "formRequest name password =
     \<lparr>hostHeader = ''192.168.4.1'', localIP = 0x0104A8C0, uri = ''/config'',
      args = [''iotSave'' \<mapsto> ''true'', ''iwcThingName'' \<mapsto> name, ''iwcApPassword'' \<mapsto> password],
      authenticate = (\<lambda>u p. True)\<rparr>"

text \<open>The events that are calls of the two saving hooks.\<close>

definition isSaveHook :: "event \<Rightarrow> bool" where
  "isSaveHook e = (case e of ConfigSaving n \<Rightarrow> True | ConfigSaved \<Rightarrow> True | _ \<Rightarrow> False)"

text \<open>
  An object with a hidden parameter \<open>secret\<close> of four bytes, and a submission that also
  carries a value for it.
\<close>

definition hiddenLeaf :: ConfigItem where
  "hiddenLeaf =
     \<lparr>label = ''Secret'', getId = ''secret'', valueBuffer = ''old'' @ [NUL], getLength = 4,
      defaultValue = [], visible = True, errorMessage = None\<rparr>"

definition hiddenWorld :: world where
  "hiddenWorld = defaultedWorld\<lparr>conf := addHiddenParameter (Leaf hiddenLeaf) (conf defaultedWorld)\<rparr>"

definition secretRequest :: WebRequestWrapper where
  "secretRequest =
     (formRequest ''newname'' [])\<lparr>args := (args (formRequest ''newname'' []))(''secret'' \<mapsto> ''new'')\<rparr>"

text \<open>
  To state where the leaves lie in the store: the bytes of the store at an offset, and the
  offsets of a list of leaves laid one after the other from a start.
\<close>

definition storedBytes :: "eeprom \<Rightarrow> nat \<Rightarrow> nat \<Rightarrow> string" where
  "storedBytes E off len = map (\<lambda>t. cells E (off + t)) [0..<len]"

fun leafOffsets :: "nat \<Rightarrow> ConfigItem list \<Rightarrow> nat list" where
  "leafOffsets start [] = []"
| "leafOffsets start (l # ls) = start # leafOffsets (start + getLength l) ls"

section \<open>The captive portal\<close>

lemma digit_iff:
  "((of_char c :: int) < of_char (CHR ''0'') \<or> (of_char c :: int) > of_char (CHR ''9''))
   \<longleftrightarrow> c \<notin> set ''0123456789''"
  by (cases c) simp

lemma isIp_Cons: "isIp (c # cs) \<longleftrightarrow> dotOrDigit c \<and> isIp cs"
proof -
  have "isIp (c # cs) = (if c \<noteq> CHR ''.'' \<and> c \<notin> set ''0123456789'' then False else isIp cs)"
    by (simp only: isIp.simps digit_iff)
  then show ?thesis
    unfolding dotOrDigit_def by (simp only: split: if_split) blast
qed

lemma isIp_all: "isIp str \<longleftrightarrow> (\<forall>c\<in>set str. dotOrDigit c)"
  by (induction str) (simp_all add: isIp_Cons del: isIp.simps(2))

lemma isIp_iff:
  "isIp str \<longleftrightarrow> (\<forall>c\<in>set str. c = CHR ''.'' \<or> c \<in> set ''0123456789'')"
  using isIp_all [of str] unfolding dotOrDigit_def .

lemma startsWith_prefix: "startsWith s p \<longleftrightarrow> (\<exists>rest. s = p @ rest)"
proof
  assume "startsWith s p"
  then have "take (length p) s = p"
    by (simp add: startsWith_def split: if_splits)
  then have "s = p @ drop (length p) s"
    by (metis append_take_drop_id)
  then show "\<exists>rest. s = p @ rest" ..
next
  assume "\<exists>rest. s = p @ rest"
  then show "startsWith s p"
    by (auto simp: startsWith_def)
qed

lemma thingNameString_terminated:
  "NUL \<in> set (valueBuffer (thingNameParameter c)) \<Longrightarrow>
     thingNameString c = cstr (valueBuffer (thingNameParameter c))"
  by (simp add: thingNameString_def cstr_def takeWhile_append1)


lemma defaulted_buffer:
  "valueBuffer (thingNameParameter (conf defaultedWorld)) = ''mything'' @ replicate 26 NUL"
  by (simp add: defaultedWorld_def freshWorld_def exampleConf_def IotWebConf_new_def
      allParameters_def systemParameters_def customParameterGroups_def hiddenParameters_def
      applyDefaultLeaf_def strncpy_def IOTWEBCONF_WORD_LEN_def)

lemma defaulted_thingName: "thingNameString (conf defaultedWorld) = ''mything''"
  by (simp add: thingNameString_terminated defaulted_buffer) (simp add: cstr_def)

lemma myThing_buffer:
  "valueBuffer (thingNameParameter (conf myThingWorld)) = ''MyThing'' @ replicate 26 NUL"
  by (simp add: myThingWorld_def freshWorld_def IotWebConf_new_def
      allParameters_def systemParameters_def customParameterGroups_def hiddenParameters_def
      applyDefaultLeaf_def strncpy_def IOTWEBCONF_WORD_LEN_def)

lemma myThing_thingName: "thingNameString (conf myThingWorld) = ''MyThing''"
  by (simp add: thingNameString_terminated myThing_buffer) (simp add: cstr_def)

lemma toStringIp_example: "toStringIp 0x0104A8C0 = ''192.168.4.1''"
  by (simp add: toStringIp_def upt_conv_Cons decimal.simps)

lemma handleCaptivePortal_fst:
  "fst (handleCaptivePortal req w) \<longleftrightarrow>
     \<not> isIp (hostHeader req)
     \<and> \<not> startsWith (hostHeader req) (toLowerCase (thingNameString (conf w)))"
  by (simp add: handleCaptivePortal_def Let_def)

lemma handleCaptivePortal_snd:
  "snd (handleCaptivePortal req w) =
     (if fst (handleCaptivePortal req w)
      then w\<lparr>out := out w @
                [SendHeader ''Location'' (''http://'' @ toStringIp (localIP req)) True,
                 Send 302 ''text/plain'' [], Stop]\<rparr>
      else w)"
  by (simp add: handleCaptivePortal_def Let_def)

text \<open>
  What \<open>handleCaptivePortal\<close> decides on: a character of the host header that is neither a
  dot nor a digit, and the host header, as it came, not beginning with the thing name in
  lower case.
\<close>

lemma handleCaptivePortal_iff:
  "fst (handleCaptivePortal req w) \<longleftrightarrow>
      (\<exists>c\<in>set (hostHeader req). \<not> (c = CHR ''.'' \<or> c \<in> set ''0123456789''))
      \<and> \<not> (\<exists>rest. hostHeader req = toLowerCase (thingNameString (conf w)) @ rest)"
  unfolding handleCaptivePortal_fst isIp_iff startsWith_prefix by blast

text \<open>
  C3. The device is named \<open>MyThing\<close> and a request comes for the host \<open>MyThing.local\<close>: the
  host header is no IP address and begins with the thing name, letter for letter, yet
  \<open>handleCaptivePortal\<close> answers true, sends the redirect to the device's own address and
  closes the connection. Only the thing name is put in lower case before the comparison, the
  host header is not. The same request is redirected when the device is named \<open>mything\<close>.
\<close>

theorem handleCaptivePortal_own_name_redirected:
  "thingNameString (conf myThingWorld) = ''MyThing''
   \<and> hostHeader mixedCaseRequest = ''MyThing.local''
   \<and> \<not> isIp (hostHeader mixedCaseRequest)
   \<and> startsWith (hostHeader mixedCaseRequest) (thingNameString (conf myThingWorld))
   \<and> handleCaptivePortal mixedCaseRequest myThingWorld =
       (True,
        myThingWorld\<lparr>out := [SendHeader ''Location'' ''http://192.168.4.1'' True,
                               Send 302 ''text/plain'' [], Stop]\<rparr>)
   \<and> thingNameString (conf defaultedWorld) = ''mything''
   \<and> startsWith (toLowerCase (hostHeader mixedCaseRequest))
        (toLowerCase (thingNameString (conf defaultedWorld)))
   \<and> fst (handleCaptivePortal mixedCaseRequest defaultedWorld)"
proof -
  have h: "hostHeader mixedCaseRequest = ''MyThing.local''"
          "localIP mixedCaseRequest = 0x0104A8C0"
    by (simp_all add: mixedCaseRequest_def evilRequest_def)
  have i: "\<not> isIp (hostHeader mixedCaseRequest)"
    by (simp add: h)
  have s: "startsWith (hostHeader mixedCaseRequest) (thingNameString (conf myThingWorld))"
    by (simp add: h myThing_thingName startsWith_def)
  have l: "toLowerCase ''MyThing'' = ''mything''" "toLowerCase ''mything'' = ''mything''"
          "toLowerCase ''MyThing.local'' = ''mything.local''"
    by (simp_all add: toLowerCase_def tolower_def)
  have f: "fst (handleCaptivePortal mixedCaseRequest myThingWorld)"
    by (simp add: handleCaptivePortal_fst myThing_thingName l) (simp add: h startsWith_def)
  have o: "out myThingWorld = []"
    by (simp add: myThingWorld_def freshWorld_def)
  have "snd (handleCaptivePortal mixedCaseRequest myThingWorld) =
          myThingWorld\<lparr>out := [SendHeader ''Location'' ''http://192.168.4.1'' True,
                                 Send 302 ''text/plain'' [], Stop]\<rparr>"
    using f by (simp add: handleCaptivePortal_snd o h toStringIp_example)
  with f have r: "handleCaptivePortal mixedCaseRequest myThingWorld =
       (True,
        myThingWorld\<lparr>out := [SendHeader ''Location'' ''http://192.168.4.1'' True,
                               Send 302 ''text/plain'' [], Stop]\<rparr>)"
    by (simp add: prod_eq_iff)
  have s': "startsWith (toLowerCase (hostHeader mixedCaseRequest))
        (toLowerCase (thingNameString (conf defaultedWorld)))"
    by (simp add: h defaulted_thingName l startsWith_def)
  have f': "fst (handleCaptivePortal mixedCaseRequest defaultedWorld)"
    by (simp add: handleCaptivePortal_fst defaulted_thingName l) (simp add: h startsWith_def)
  from myThing_thingName h(1) i s r defaulted_thingName s' f' show ?thesis
    by (intro conjI)
qed

text \<open>
  C10. \<open>isIp\<close> is true exactly of the strings made of dots and decimal digits only, the
  empty string, \<open>...\<close> and \<open>999.999.999.999\<close> among them; and \<open>handleCaptivePortal\<close> does
  not redirect a request whose host header is such a string.
\<close>

theorem isIp_dots_and_digits:
  "(isIp str \<longleftrightarrow> (\<forall>c\<in>set str. c = CHR ''.'' \<or> c \<in> set ''0123456789''))
   \<and> isIp [] \<and> isIp ''...'' \<and> isIp ''999.999.999.999''
   \<and> ((\<forall>c\<in>set (hostHeader req). c = CHR ''.'' \<or> c \<in> set ''0123456789'')
        \<longrightarrow> handleCaptivePortal req w = (False, w))"
proof -
  have "isIp (hostHeader req) \<Longrightarrow> handleCaptivePortal req w = (False, w)"
    by (simp add: handleCaptivePortal_def Let_def)
  then show ?thesis
    using isIp_iff [of str] isIp_iff [of "hostHeader req"] by simp
qed

theorem isIp_dots_and_digits_witness:
  "isIp ''1.2''
   \<and> handleCaptivePortal (evilRequest\<lparr>hostHeader := ''999.999.999.999''\<rparr>) defaultedWorld
       = (False, defaultedWorld)"
  using isIp_dots_and_digits
          [of "''1.2''" "evilRequest\<lparr>hostHeader := ''999.999.999.999''\<rparr>" defaultedWorld]
  by simp

section \<open>Loading the configuration\<close>

lemma testConfigVersionFrom_iff:
  "testConfigVersionFrom c E ts \<longleftrightarrow>
     (\<forall>t\<in>set ts. EEPROM_read E (IOTWEBCONF_CONFIG_START + t) = configVersionAt c t)"
  by (induction ts) simp_all

lemma testConfigVersion_iff:
  "testConfigVersion c E \<longleftrightarrow>
     (\<forall>t<IOTWEBCONF_CONFIG_VERSION_LENGTH.
        EEPROM_read E (IOTWEBCONF_CONFIG_START + t) = configVersionAt c t)"
  by (auto simp: testConfigVersion_def testConfigVersionFrom_iff)

lemma loadConfig_fst:
  "fst (loadConfig w) =
     testConfigVersion (conf w)
       (EEPROM_begin (IOTWEBCONF_CONFIG_START + IOTWEBCONF_CONFIG_VERSION_LENGTH + initConfig (conf w))
          (EEPROM w))"
  by (simp add: loadConfig_def Let_def)

lemma loadConfig_EEPROM:
  "EEPROM (snd (loadConfig w)) =
     EEPROM_begin (IOTWEBCONF_CONFIG_START + IOTWEBCONF_CONFIG_VERSION_LENGTH + initConfig (conf w))
       (EEPROM w)"
  by (simp add: loadConfig_def Let_def)

lemma loadConfig_out: "out (snd (loadConfig w)) = out w"
  by (simp add: loadConfig_def Let_def)

lemma loadConfig_conf_invalid:
  "\<not> fst (loadConfig w) \<Longrightarrow>
     conf (snd (loadConfig w)) =
       set_allParameters (applyDefaultValue (allParameters (conf w))) (conf w)"
  by (simp add: loadConfig_def Let_def split: if_splits)

lemma EEPROM_read_begin:
  "a < n \<Longrightarrow> EEPROM_read (EEPROM_begin n E) a = cells E a"
  by (simp add: EEPROM_read_def EEPROM_begin_def)

lemma loadConfig_invalid_iff:
  "\<not> fst (loadConfig w) \<longleftrightarrow>
     (\<exists>t<IOTWEBCONF_CONFIG_VERSION_LENGTH.
        cells (EEPROM w) (IOTWEBCONF_CONFIG_START + t) \<noteq> configVersionAt (conf w) t)"
  by (simp add: loadConfig_fst testConfigVersion_iff EEPROM_read_begin)

lemma allParameters_set_default:
  "allParameters (set_allParameters (applyDefaultValue (allParameters c)) c) =
     applyDefaultValue (allParameters c)"
  by (simp add: allParameters_def systemParameters_def customParameterGroups_def
      hiddenParameters_def)

lemma leaves_applyDefaultValue:
  "leaves (applyDefaultValue t) = map applyDefaultLeaf (leaves t)"
  by (induction t) (simp_all add: map_concat cong: map_cong)

lemma cstr_strncpy:
  "length src < n \<Longrightarrow> NUL \<notin> set src \<Longrightarrow> cstr (strncpy dst src n) = src"
proof -
  assume len: "length src < n" and nul: "NUL \<notin> set src"
  from len obtain k where k: "n - length src = Suc k"
    by (metis Suc_diff_Suc)
  from len have "take n (src @ replicate n NUL) = src @ replicate (n - length src) NUL"
    by simp
  then have "strncpy dst src n = src @ NUL # (replicate k NUL @ drop n dst)"
    by (simp add: strncpy_def k)
  then show ?thesis
    using nul by (auto simp: cstr_def takeWhile_tail)
qed

lemma strncpy_long:
  "n \<le> length src \<Longrightarrow> length dst \<le> n \<Longrightarrow> strncpy dst src n = take n src"
  by (simp add: strncpy_def)


lemma freshWorld_mismatch:
  "\<exists>t<IOTWEBCONF_CONFIG_VERSION_LENGTH.
     cells (EEPROM freshWorld) (IOTWEBCONF_CONFIG_START + t)
       \<noteq> configVersionAt (conf freshWorld) t"
proof -
  have "cells (EEPROM freshWorld) (IOTWEBCONF_CONFIG_START + 0)
          \<noteq> configVersionAt (conf freshWorld) 0"
    by (simp add: freshWorld_def freshStore_def exampleConf_def IotWebConf_new_def
        configVersionAt_def)
  moreover have "0 < IOTWEBCONF_CONFIG_VERSION_LENGTH"
    by (simp add: IOTWEBCONF_CONFIG_VERSION_LENGTH_def)
  ultimately show ?thesis
    by blast
qed

lemma configVersionAt_string:
  "IOTWEBCONF_CONFIG_VERSION_LENGTH \<le> Suc (length (configVersion c)) \<Longrightarrow>
   t < IOTWEBCONF_CONFIG_VERSION_LENGTH \<Longrightarrow>
     configVersionAt c t = (if t < length (configVersion c) then configVersion c ! t else NUL)"
  by (auto simp: configVersionAt_def)

text \<open>
  C4. \<open>loadConfig\<close> returns with the store still open, on a matching and on a mismatching
  version alike: the region it opened is the state of the store when it returns.
\<close>

theorem loadConfig_leaves_store_open:
  "opened (EEPROM (snd (loadConfig w))) =
     Some (IOTWEBCONF_CONFIG_START + IOTWEBCONF_CONFIG_VERSION_LENGTH + initConfig (conf w))"
  by (simp add: loadConfig_EEPROM EEPROM_begin_def)

text \<open>
  C2. \<open>loadConfig\<close> returns false exactly when one of the \<open>IOTWEBCONF_CONFIG_VERSION_LENGTH\<close>
  bytes at the head of the store differs from the byte \<open>_configVersion[t]\<close> at the same
  index, which is the character of the version string or its terminator whenever the
  string with its terminator has that many bytes. It then has applied the default to the
  whole tree: every leaf of \<open>_allParameters\<close> is the old leaf with its default copied into
  its buffer, which reads as the default when the default fits. The outcome is the
  boolean; the function has no other way out.
\<close>

theorem loadConfig_version_mismatch:
  "(fst (loadConfig w) = False \<longleftrightarrow>
      (\<exists>t<IOTWEBCONF_CONFIG_VERSION_LENGTH.
         cells (EEPROM w) (IOTWEBCONF_CONFIG_START + t) \<noteq> configVersionAt (conf w) t))
   \<and> (IOTWEBCONF_CONFIG_VERSION_LENGTH \<le> Suc (length (configVersion (conf w))) \<longrightarrow>
        (\<forall>t<IOTWEBCONF_CONFIG_VERSION_LENGTH.
           configVersionAt (conf w) t =
             (if t < length (configVersion (conf w)) then configVersion (conf w) ! t else NUL)))
   \<and> (fst (loadConfig w) = False \<longrightarrow>
        allParameters (conf (snd (loadConfig w))) = applyDefaultValue (allParameters (conf w))
        \<and> leaves (allParameters (conf (snd (loadConfig w))))
            = map applyDefaultLeaf (leaves (allParameters (conf w)))
        \<and> (\<forall>l\<in>set (leaves (allParameters (conf w))).
              length (defaultValue l) < getLength l \<and> NUL \<notin> set (defaultValue l)
              \<longrightarrow> cstr (valueBuffer (applyDefaultLeaf l)) = defaultValue l))"
proof -
  have a: "fst (loadConfig w) = False \<longleftrightarrow>
      (\<exists>t<IOTWEBCONF_CONFIG_VERSION_LENGTH.
         cells (EEPROM w) (IOTWEBCONF_CONFIG_START + t) \<noteq> configVersionAt (conf w) t)"
    using loadConfig_invalid_iff [of w] by simp
  have v: "IOTWEBCONF_CONFIG_VERSION_LENGTH \<le> Suc (length (configVersion (conf w))) \<longrightarrow>
        (\<forall>t<IOTWEBCONF_CONFIG_VERSION_LENGTH.
           configVersionAt (conf w) t =
             (if t < length (configVersion (conf w)) then configVersion (conf w) ! t else NUL))"
    using configVersionAt_string [of "conf w"] by blast
  have b: "allParameters (conf (snd (loadConfig w))) = applyDefaultValue (allParameters (conf w))"
    if "fst (loadConfig w) = False"
    using that by (simp add: loadConfig_conf_invalid allParameters_set_default)
  have c: "\<forall>l\<in>set (leaves (allParameters (conf w))).
              length (defaultValue l) < getLength l \<and> NUL \<notin> set (defaultValue l)
              \<longrightarrow> cstr (valueBuffer (applyDefaultLeaf l)) = defaultValue l"
    by (simp add: applyDefaultLeaf_def cstr_strncpy)
  have d: "fst (loadConfig w) = False \<longrightarrow>
        allParameters (conf (snd (loadConfig w))) = applyDefaultValue (allParameters (conf w))
        \<and> leaves (allParameters (conf (snd (loadConfig w))))
            = map applyDefaultLeaf (leaves (allParameters (conf w)))
        \<and> (\<forall>l\<in>set (leaves (allParameters (conf w))).
              length (defaultValue l) < getLength l \<and> NUL \<notin> set (defaultValue l)
              \<longrightarrow> cstr (valueBuffer (applyDefaultLeaf l)) = defaultValue l)"
    using b c by (simp add: leaves_applyDefaultValue)
  show ?thesis
    using a v d by (intro conjI)
qed

theorem loadConfig_version_mismatch_witness:
  "fst (loadConfig freshWorld) = False
   \<and> map (configVersionAt (conf freshWorld)) [0, 1, 2, 3] = ''init''
   \<and> leaves (allParameters (conf (snd (loadConfig freshWorld))))
       = map applyDefaultLeaf (leaves (allParameters (conf freshWorld)))
   \<and> cstr (valueBuffer (applyDefaultLeaf (thingNameParameter exampleConf))) = ''mything''"
proof -
  note t = loadConfig_version_mismatch [of freshWorld]
  have f: "fst (loadConfig freshWorld) = False"
    using t [THEN conjunct1] freshWorld_mismatch by (rule iffD2)
  have cv: "configVersion (conf freshWorld) = ''init''"
    by (simp add: freshWorld_def exampleConf_def IotWebConf_new_def)
  have "IOTWEBCONF_CONFIG_VERSION_LENGTH \<le> Suc (length (configVersion (conf freshWorld)))"
    by (simp add: cv IOTWEBCONF_CONFIG_VERSION_LENGTH_def)
  note q = mp [OF t [THEN conjunct2, THEN conjunct1] this]
  have g: "map (configVersionAt (conf freshWorld)) [0, 1, 2, 3] = ''init''"
    using q by (simp add: cv IOTWEBCONF_CONFIG_VERSION_LENGTH_def)
  note d = mp [OF t [THEN conjunct2, THEN conjunct2] f]
  have m: "thingNameParameter exampleConf \<in> set (leaves (allParameters (conf freshWorld)))"
    by (simp add: freshWorld_def allParameters_def systemParameters_def)
  have h: "length (defaultValue (thingNameParameter exampleConf))
             < getLength (thingNameParameter exampleConf)
           \<and> NUL \<notin> set (defaultValue (thingNameParameter exampleConf))"
    by (simp add: exampleConf_def IotWebConf_new_def IOTWEBCONF_WORD_LEN_def)
  have "cstr (valueBuffer (applyDefaultLeaf (thingNameParameter exampleConf)))
          = defaultValue (thingNameParameter exampleConf)"
    by (rule mp [OF bspec [OF d [THEN conjunct2, THEN conjunct2] m] h])
  then have n: "cstr (valueBuffer (applyDefaultLeaf (thingNameParameter exampleConf))) = ''mything''"
    by (simp add: exampleConf_def IotWebConf_new_def)
  from f g d [THEN conjunct2, THEN conjunct1] n show ?thesis
    by (intro conjI)
qed

section \<open>Start-up\<close>









section \<open>Validating the form\<close>

lemma validateForm_unfold:
  "validateForm fv req c =
     (case externalValidation fv req c of (valid0, c1) \<Rightarrow>
        let l = length (arg req (getId (thingNameParameter c1)));
            l' = length (arg req (getId (apPasswordParameter c1)));
            c2 = (if l < 3
                  then c1\<lparr>thingNameParameter := (thingNameParameter c1)
                           \<lparr>errorMessage := Some ''Give a name with at least 3 characters.''\<rparr>\<rparr>
                  else c1);
            c3 = (if 0 < l' \<and> l' < 8
                  then c2\<lparr>apPasswordParameter := (apPasswordParameter c2)
                           \<lparr>errorMessage := Some ''Password length must be at least 8 characters.''\<rparr>\<rparr>
                  else c2)
        in (valid0 \<and> 3 \<le> l \<and> \<not> (0 < l' \<and> l' < 8), c3))"
proof (cases "externalValidation fv req c")
  case (Pair valid0 c1)
  then have "(case fv of None \<Rightarrow> (True, clearedMessages c) | Some f \<Rightarrow> f req (clearedMessages c))
               = (valid0, c1)"
    by (simp add: externalValidation_def)
  then show ?thesis
    unfolding validateForm_def clearedMessages_def [symmetric] Pair
    by (simp add: Let_def)
qed

lemma validateForm_fst:
  "fst (validateForm fv req c) \<longleftrightarrow>
     (let r = externalValidation fv req c;
          l = length (arg req (getId (thingNameParameter (snd r))));
          l' = length (arg req (getId (apPasswordParameter (snd r))))
      in fst r \<and> 3 \<le> l \<and> \<not> (0 < l' \<and> l' < 8))"
  by (cases "externalValidation fv req c") (simp add: validateForm_unfold Let_def)

lemma validateForm_snd:
  "snd (validateForm fv req c) =
     (let c1 = snd (externalValidation fv req c);
          l = length (arg req (getId (thingNameParameter c1)));
          l' = length (arg req (getId (apPasswordParameter c1)));
          c2 = (if l < 3
                then c1\<lparr>thingNameParameter := (thingNameParameter c1)
                         \<lparr>errorMessage := Some ''Give a name with at least 3 characters.''\<rparr>\<rparr>
                else c1)
      in if 0 < l' \<and> l' < 8
         then c2\<lparr>apPasswordParameter := (apPasswordParameter c2)
                  \<lparr>errorMessage := Some ''Password length must be at least 8 characters.''\<rparr>\<rparr>
         else c2)"
  by (cases "externalValidation fv req c") (simp add: validateForm_unfold Let_def)

lemma clearedMessages_errors:
  "errorMessage (thingNameParameter (clearedMessages c)) = None"
  "errorMessage (apPasswordParameter (clearedMessages c)) = None"
  by (simp_all add: clearedMessages_def systemParameters_def customParameterGroups_def)

lemma clearedMessages_ids:
  "getId (thingNameParameter (clearedMessages c)) = getId (thingNameParameter c)"
  "getId (apPasswordParameter (clearedMessages c)) = getId (apPasswordParameter c)"
  by (simp_all add: clearedMessages_def systemParameters_def customParameterGroups_def)

lemma validateForm_thingName_message:
  "errorMessage (thingNameParameter (snd (validateForm fv req c))) =
     (let c1 = snd (externalValidation fv req c)
      in if length (arg req (getId (thingNameParameter c1))) < 3
         then Some ''Give a name with at least 3 characters.''
         else errorMessage (thingNameParameter c1))"
  by (simp add: validateForm_snd Let_def)

lemma validateForm_apPassword_message:
  "errorMessage (apPasswordParameter (snd (validateForm fv req c))) =
     (let c1 = snd (externalValidation fv req c);
          l' = length (arg req (getId (apPasswordParameter c1)))
      in if 0 < l' \<and> l' < 8
         then Some ''Password length must be at least 8 characters.''
         else errorMessage (apPasswordParameter c1))"
  by (simp add: validateForm_snd Let_def)

lemma formRequest_args:
  "arg (formRequest name password) ''iwcThingName'' = name"
  "arg (formRequest name password) ''iwcApPassword'' = password"
  "hasArg (formRequest name password) ''iotSave''"
  "authenticate (formRequest name password) u p"
  by (simp_all add: formRequest_def arg_def hasArg_def)

lemma exampleConf_ids:
  "getId (thingNameParameter exampleConf) = ''iwcThingName''"
  "getId (apPasswordParameter exampleConf) = ''iwcApPassword''"
  by (simp_all add: exampleConf_def IotWebConf_new_def)

text \<open>
  C5. With \<open>r\<close> the outcome of the external validator (called on the object whose messages
  were just cleared, so before any built-in check has set a message), \<open>l\<close> the length of the
  submitted thing name and \<open>l'\<close> that of the submitted AP password: \<open>validateForm\<close> returns
  the conjunction of the external result and the two built-in checks; each built-in check
  sets its message whatever the other checks and the validator found, on top of what the
  validator left; and with \<open>l = 2\<close> and \<open>l' = 5\<close> both messages are set in the one pass.
\<close>

theorem validateForm_additive:
  "(let r = externalValidation fv req c;
        c1 = snd r;
        l = length (arg req (getId (thingNameParameter c1)));
        l' = length (arg req (getId (apPasswordParameter c1)));
        v = validateForm fv req c
    in (fst v \<longleftrightarrow> fst r \<and> 3 \<le> l \<and> \<not> (0 < l' \<and> l' < 8))
       \<and> errorMessage (thingNameParameter (snd v)) =
           (if l < 3 then Some ''Give a name with at least 3 characters.''
            else errorMessage (thingNameParameter c1))
       \<and> errorMessage (apPasswordParameter (snd v)) =
           (if 0 < l' \<and> l' < 8 then Some ''Password length must be at least 8 characters.''
            else errorMessage (apPasswordParameter c1))
       \<and> (l = 2 \<and> l' = 5 \<longrightarrow>
            \<not> fst v
            \<and> errorMessage (thingNameParameter (snd v))
                = Some ''Give a name with at least 3 characters.''
            \<and> errorMessage (apPasswordParameter (snd v))
                = Some ''Password length must be at least 8 characters.''))
   \<and> externalValidation (Some f) req c = f req (clearedMessages c)
   \<and> externalValidation None req c = (True, clearedMessages c)
   \<and> errorMessage (thingNameParameter (clearedMessages c)) = None
   \<and> errorMessage (apPasswordParameter (clearedMessages c)) = None"
proof -
  have e: "externalValidation (Some f) req c = f req (clearedMessages c)"
          "externalValidation None req c = (True, clearedMessages c)"
    by (simp_all add: externalValidation_def)
  have m: "(let r = externalValidation fv req c;
        c1 = snd r;
        l = length (arg req (getId (thingNameParameter c1)));
        l' = length (arg req (getId (apPasswordParameter c1)));
        v = validateForm fv req c
    in (fst v \<longleftrightarrow> fst r \<and> 3 \<le> l \<and> \<not> (0 < l' \<and> l' < 8))
       \<and> errorMessage (thingNameParameter (snd v)) =
           (if l < 3 then Some ''Give a name with at least 3 characters.''
            else errorMessage (thingNameParameter c1))
       \<and> errorMessage (apPasswordParameter (snd v)) =
           (if 0 < l' \<and> l' < 8 then Some ''Password length must be at least 8 characters.''
            else errorMessage (apPasswordParameter c1))
       \<and> (l = 2 \<and> l' = 5 \<longrightarrow>
            \<not> fst v
            \<and> errorMessage (thingNameParameter (snd v))
                = Some ''Give a name with at least 3 characters.''
            \<and> errorMessage (apPasswordParameter (snd v))
                = Some ''Password length must be at least 8 characters.''))"
    unfolding Let_def validateForm_thingName_message validateForm_apPassword_message
      validateForm_fst
    by simp
  show ?thesis
    using m e clearedMessages_errors [of c] by (intro conjI)
qed

theorem validateForm_additive_witness:
  "\<not> fst (validateForm None (formRequest ''ab'' ''12345'') exampleConf)
   \<and> errorMessage (thingNameParameter (snd (validateForm None (formRequest ''ab'' ''12345'') exampleConf)))
       = Some ''Give a name with at least 3 characters.''
   \<and> errorMessage (apPasswordParameter (snd (validateForm None (formRequest ''ab'' ''12345'') exampleConf)))
       = Some ''Password length must be at least 8 characters.''"
  using validateForm_additive
          [of None "formRequest ''ab'' ''12345''" exampleConf "\<lambda>r c. (True, c)"]
  by (simp add: Let_def externalValidation_def clearedMessages_ids exampleConf_ids
      formRequest_args)

text \<open>
  C6. The built-in checks leave a thing name of length 3 alone and reject one of length 2;
  they leave an AP password of length 0 or 8 alone and reject one of length 7; and when
  the external validator (if any) answered true, a thing name of length 3 with an AP
  password of length 0 or 8 is valid.
\<close>

theorem validateForm_boundaries:
  "(let r = externalValidation fv req c;
        c1 = snd r;
        l = length (arg req (getId (thingNameParameter c1)));
        l' = length (arg req (getId (apPasswordParameter c1)));
        v = validateForm fv req c
    in (l = 3 \<longrightarrow> errorMessage (thingNameParameter (snd v)) = errorMessage (thingNameParameter c1))
       \<and> (l = 2 \<longrightarrow> \<not> fst v
             \<and> errorMessage (thingNameParameter (snd v))
                 = Some ''Give a name with at least 3 characters.'')
       \<and> (l' = 0 \<or> l' = 8 \<longrightarrow>
             errorMessage (apPasswordParameter (snd v)) = errorMessage (apPasswordParameter c1))
       \<and> (l' = 7 \<longrightarrow> \<not> fst v
             \<and> errorMessage (apPasswordParameter (snd v))
                 = Some ''Password length must be at least 8 characters.'')
       \<and> (fst r \<and> l = 3 \<and> (l' = 0 \<or> l' = 8) \<longrightarrow> fst v))"
  unfolding Let_def validateForm_thingName_message validateForm_apPassword_message
    validateForm_fst
  by auto

theorem validateForm_boundaries_witness:
  "fst (validateForm None (formRequest ''abc'' []) exampleConf)
   \<and> fst (validateForm None (formRequest ''abc'' ''12345678'') exampleConf)
   \<and> \<not> fst (validateForm None (formRequest ''ab'' []) exampleConf)
   \<and> \<not> fst (validateForm None (formRequest ''abc'' ''1234567'') exampleConf)"
proof -
  note e = externalValidation_def clearedMessages_ids exampleConf_ids formRequest_args
  have a: "fst (validateForm None (formRequest ''abc'' []) exampleConf)"
    using validateForm_boundaries [of None "formRequest ''abc'' []" exampleConf]
    by (simp add: Let_def e)
  have b: "fst (validateForm None (formRequest ''abc'' ''12345678'') exampleConf)"
    using validateForm_boundaries [of None "formRequest ''abc'' ''12345678''" exampleConf]
    by (simp add: Let_def e)
  have c: "\<not> fst (validateForm None (formRequest ''ab'' []) exampleConf)"
    using validateForm_boundaries [of None "formRequest ''ab'' []" exampleConf]
    by (simp add: Let_def e)
  have d: "\<not> fst (validateForm None (formRequest ''abc'' ''1234567'') exampleConf)"
    using validateForm_boundaries [of None "formRequest ''abc'' ''1234567''" exampleConf]
    by (simp add: Let_def e)
  from a b c d show ?thesis
    by (intro conjI)
qed

section \<open>The config portal\<close>

lemma saveConfig_conf: "conf (saveConfig w) = conf w"
  by (simp add: saveConfig_def Let_def)

lemma handleConfig_invalid:
  "authenticate req IOTWEBCONF_ADMIN_USER_NAME (apPasswordString (conf w))
   \<Longrightarrow> hasArg req ''iotSave'' \<Longrightarrow> \<not> fst (validateForm fv req (conf w))
   \<Longrightarrow> handleConfig fv req w =
         w\<lparr>conf := snd (validateForm fv req (conf w)),
           out := out w @ configPortal True req (snd (validateForm fv req (conf w)))\<rparr>"
  by (cases "validateForm fv req (conf w)") (simp add: handleConfig_def Let_def)

lemma handleConfig_valid:
  "authenticate req IOTWEBCONF_ADMIN_USER_NAME (apPasswordString (conf w))
   \<Longrightarrow> hasArg req ''iotSave'' \<Longrightarrow> fst (validateForm fv req (conf w))
   \<Longrightarrow> handleConfig fv req w =
         (let c1 = snd (validateForm fv req (conf w));
              c2 = set_systemParameters (update req (systemParameters c1)) c1;
              c3 = set_customParameterGroups (update req (customParameterGroups c2)) c2;
              w1 = saveConfig (w\<lparr>conf := c3\<rparr>)
          in w1\<lparr>out := out w1 @ savedPage c3\<rparr>)"
  by (cases "validateForm fv req (conf w)") (simp add: handleConfig_def Let_def saveConfig_conf)

lemma leaves_allParameters:
  "leaves (allParameters c) =
     leaves (systemParameters c) @ leaves (customParameterGroups c) @ leaves (hiddenParameters c)"
  by (simp add: allParameters_def)

lemma leaves_groups:
  "leaves (systemParameters c) =
     thingNameParameter c # apPasswordParameter c # concat (map leaves (systemItems c))"
  "leaves (customParameterGroups c) = concat (map leaves (customItems c))"
  "leaves (hiddenParameters c) = concat (map leaves (hiddenItems c))"
  by (simp_all add: systemParameters_def customParameterGroups_def hiddenParameters_def)

lemma leaves_clearErrorMessage:
  "leaves (clearErrorMessage t) = map (\<lambda>l. l\<lparr>errorMessage := None\<rparr>) (leaves t)"
  by (induction t) (simp_all add: map_concat cong: map_cong)

lemma leaves_update:
  "leaves (update req t) = map (updateLeaf req) (leaves t)"
  by (induction t) (simp_all add: map_concat cong: map_cong)

lemma clearedMessages_groups:
  "systemParameters (clearedMessages c) = clearErrorMessage (systemParameters c)"
  "customParameterGroups (clearedMessages c) = clearErrorMessage (customParameterGroups c)"
  "hiddenParameters (clearedMessages c) = hiddenParameters c"
  by (simp_all add: clearedMessages_def systemParameters_def customParameterGroups_def
      hiddenParameters_def)

lemma buffers_clearedMessages:
  "map valueBuffer (leaves (allParameters (clearedMessages c)))
     = map valueBuffer (leaves (allParameters c))"
  by (simp add: leaves_allParameters clearedMessages_groups leaves_clearErrorMessage comp_def)

lemma validateForm_groups:
  "systemItems (snd (validateForm fv req c)) = systemItems (snd (externalValidation fv req c))"
  "customItems (snd (validateForm fv req c)) = customItems (snd (externalValidation fv req c))"
  "hiddenItems (snd (validateForm fv req c)) = hiddenItems (snd (externalValidation fv req c))"
  "valueBuffer (thingNameParameter (snd (validateForm fv req c)))
     = valueBuffer (thingNameParameter (snd (externalValidation fv req c)))"
  "valueBuffer (apPasswordParameter (snd (validateForm fv req c)))
     = valueBuffer (apPasswordParameter (snd (externalValidation fv req c)))"
  by (simp_all add: validateForm_snd Let_def)

lemma buffers_validateForm:
  "map valueBuffer (leaves (allParameters (snd (validateForm fv req c))))
     = map valueBuffer (leaves (allParameters (snd (externalValidation fv req c))))"
  by (simp add: leaves_allParameters leaves_groups validateForm_groups)

lemma renderHtml_no_hooks: "filter isSaveHook (renderHtml d req t) = []"
  by (induction t) (simp_all add: isSaveHook_def filter_concat split: option.splits)

lemma configPortal_no_hooks: "filter isSaveHook (configPortal d req c) = []"
  by (simp add: configPortal_def Let_def renderHtml_no_hooks isSaveHook_def)

lemma configPortal_thingName:
  "visible (thingNameParameter c) \<Longrightarrow>
     FormInput (label (thingNameParameter c)) (getId (thingNameParameter c))
       (if d then arg req (getId (thingNameParameter c)) else cstr (valueBuffer (thingNameParameter c)))
       (errorMessage (thingNameParameter c))
     \<in> set (configPortal d req c)"
  by (simp add: configPortal_def Let_def systemParameters_def)


lemma validateForm_misc:
  "visible (thingNameParameter (snd (validateForm fv req c)))
     = visible (thingNameParameter (snd (externalValidation fv req c)))"
  "label (thingNameParameter (snd (validateForm fv req c)))
     = label (thingNameParameter (snd (externalValidation fv req c)))"
  "getId (thingNameParameter (snd (validateForm fv req c)))
     = getId (thingNameParameter (snd (externalValidation fv req c)))"
  by (simp_all add: validateForm_snd Let_def)

lemma handleConfig_invalid_portal:
  "authenticate req IOTWEBCONF_ADMIN_USER_NAME (apPasswordString (conf w))
   \<and> hasArg req ''iotSave'' \<and> \<not> fst (validateForm fv req (conf w)) \<longrightarrow>
   (let c1 = snd (externalValidation fv req (conf w));
        c' = snd (validateForm fv req (conf w));
        w' = handleConfig fv req w
    in w' = w\<lparr>conf := c', out := out w @ configPortal True req c'\<rparr>
       \<and> EEPROM w' = EEPROM w
       \<and> filter isSaveHook (out w') = filter isSaveHook (out w)
       \<and> map valueBuffer (leaves (allParameters (conf w')))
           = map valueBuffer (leaves (allParameters c1))
       \<and> (fv = None \<longrightarrow>
            map valueBuffer (leaves (allParameters (conf w')))
              = map valueBuffer (leaves (allParameters (conf w))))
       \<and> (length (arg req (getId (thingNameParameter c1))) < 3 \<longrightarrow>
            errorMessage (thingNameParameter (conf w'))
              = Some ''Give a name with at least 3 characters.''
            \<and> (visible (thingNameParameter c1) \<longrightarrow>
                 FormInput (label (thingNameParameter c1)) (getId (thingNameParameter c1))
                   (arg req (getId (thingNameParameter c1)))
                   (Some ''Give a name with at least 3 characters.'')
                 \<in> set (out w'))))"
proof (intro impI, elim conjE)
  assume a: "authenticate req IOTWEBCONF_ADMIN_USER_NAME
               (apPasswordString (conf w))"
    and h: "hasArg req ''iotSave''" and n: "\<not> fst (validateForm fv req (conf w))"
  let ?c1 = "snd (externalValidation fv req (conf w))"
  let ?c' = "snd (validateForm fv req (conf w))"
  have w': "handleConfig fv req w = w\<lparr>conf := ?c', out := out w @ configPortal True req ?c'\<rparr>"
    by (rule handleConfig_invalid [OF a h n])
  have e: "EEPROM (handleConfig fv req w) = EEPROM w"
    by (simp add: w')
  have k: "filter isSaveHook (out (handleConfig fv req w)) = filter isSaveHook (out w)"
    by (simp add: w' configPortal_no_hooks)
  have b: "map valueBuffer (leaves (allParameters (conf (handleConfig fv req w))))
           = map valueBuffer (leaves (allParameters ?c1))"
    by (simp add: w' buffers_validateForm)
  have b0: "map valueBuffer (leaves (allParameters (conf (handleConfig fv req w))))
              = map valueBuffer (leaves (allParameters (conf w)))" if "fv = None"
    using that b by (simp add: externalValidation_def buffers_clearedMessages)
  have m: "errorMessage (thingNameParameter (conf (handleConfig fv req w)))
              = Some ''Give a name with at least 3 characters.''"
    if "length (arg req (getId (thingNameParameter ?c1))) < 3"
    using that by (simp add: w' validateForm_thingName_message)
  have f: "FormInput (label (thingNameParameter ?c1)) (getId (thingNameParameter ?c1))
                   (arg req (getId (thingNameParameter ?c1)))
                   (Some ''Give a name with at least 3 characters.'')
                 \<in> set (out (handleConfig fv req w))"
    if l: "length (arg req (getId (thingNameParameter ?c1))) < 3"
      and v: "visible (thingNameParameter ?c1)"
  proof -
    have "visible (thingNameParameter ?c')"
      using v by (simp add: validateForm_misc)
    from configPortal_thingName [OF this, of True req]
    have "FormInput (label (thingNameParameter ?c1)) (getId (thingNameParameter ?c1))
            (arg req (getId (thingNameParameter ?c1)))
            (errorMessage (thingNameParameter ?c')) \<in> set (configPortal True req ?c')"
      by (simp add: validateForm_misc)
    moreover have "errorMessage (thingNameParameter ?c') = Some ''Give a name with at least 3 characters.''"
      using l by (simp add: validateForm_thingName_message)
    ultimately show ?thesis
      by (simp add: w')
  qed
  show "let c1 = ?c1; c' = ?c'; w' = handleConfig fv req w
    in w' = w\<lparr>conf := c', out := out w @ configPortal True req c'\<rparr>
       \<and> EEPROM w' = EEPROM w
       \<and> filter isSaveHook (out w') = filter isSaveHook (out w)
       \<and> map valueBuffer (leaves (allParameters (conf w')))
           = map valueBuffer (leaves (allParameters c1))
       \<and> (fv = None \<longrightarrow>
            map valueBuffer (leaves (allParameters (conf w')))
              = map valueBuffer (leaves (allParameters (conf w))))
       \<and> (length (arg req (getId (thingNameParameter c1))) < 3 \<longrightarrow>
            errorMessage (thingNameParameter (conf w'))
              = Some ''Give a name with at least 3 characters.''
            \<and> (visible (thingNameParameter c1) \<longrightarrow>
                 FormInput (label (thingNameParameter c1)) (getId (thingNameParameter c1))
                   (arg req (getId (thingNameParameter c1)))
                   (Some ''Give a name with at least 3 characters.'')
                 \<in> set (out w')))"
    unfolding Let_def using w' e k b b0 m f by (intro conjI impI)
qed


lemma defaultedWorld_fields:
  "getId (thingNameParameter (conf defaultedWorld)) = ''iwcThingName''"
  "getId (apPasswordParameter (conf defaultedWorld)) = ''iwcApPassword''"
  "label (thingNameParameter (conf defaultedWorld)) = ''Thing name''"
  "visible (thingNameParameter (conf defaultedWorld))"
  "hiddenItems (conf defaultedWorld) = []"
  by (simp_all add: defaultedWorld_def freshWorld_def exampleConf_def IotWebConf_new_def
      allParameters_def systemParameters_def customParameterGroups_def hiddenParameters_def
      applyDefaultLeaf_def)

lemma clearedMessages_misc:
  "label (thingNameParameter (clearedMessages c)) = label (thingNameParameter c)"
  "visible (thingNameParameter (clearedMessages c)) = visible (thingNameParameter c)"
  "hiddenItems (clearedMessages c) = hiddenItems c"
  by (simp_all add: clearedMessages_def systemParameters_def customParameterGroups_def)

text \<open>
  C7. For an authenticated submission that carries \<open>iotSave\<close> and fails validation,
  \<open>handleConfig\<close> leaves the object as \<open>validateForm\<close> left it and sends the config portal
  rendered from it: no parameter is updated (every value buffer is as the external
  validator left it, and as it was when no validator is registered), \<open>saveConfig\<close> is not
  run (the store is the same and no saving hook is called), and when the submitted thing
  name is shorter than 3 characters the thing-name message is set and is in the rendered
  input of the thing name. A submission that is not authenticated is answered with the
  request for authentication, and nothing else changes.
\<close>

theorem handleConfig_validation_failure:
  "(authenticate req IOTWEBCONF_ADMIN_USER_NAME (apPasswordString (conf w))
   \<and> hasArg req ''iotSave'' \<and> \<not> fst (validateForm fv req (conf w)) \<longrightarrow>
   (let c1 = snd (externalValidation fv req (conf w));
        c' = snd (validateForm fv req (conf w));
        w' = handleConfig fv req w
    in w' = w\<lparr>conf := c', out := out w @ configPortal True req c'\<rparr>
       \<and> EEPROM w' = EEPROM w
       \<and> filter isSaveHook (out w') = filter isSaveHook (out w)
       \<and> map valueBuffer (leaves (allParameters (conf w')))
           = map valueBuffer (leaves (allParameters c1))
       \<and> (fv = None \<longrightarrow>
            map valueBuffer (leaves (allParameters (conf w')))
              = map valueBuffer (leaves (allParameters (conf w))))
       \<and> (length (arg req (getId (thingNameParameter c1))) < 3 \<longrightarrow>
            errorMessage (thingNameParameter (conf w'))
              = Some ''Give a name with at least 3 characters.''
            \<and> (visible (thingNameParameter c1) \<longrightarrow>
                 FormInput (label (thingNameParameter c1)) (getId (thingNameParameter c1))
                   (arg req (getId (thingNameParameter c1)))
                   (Some ''Give a name with at least 3 characters.'')
                 \<in> set (out w')))))
   \<and> (\<not> authenticate req IOTWEBCONF_ADMIN_USER_NAME
           (apPasswordString (conf w))
        \<longrightarrow> handleConfig fv req w = w\<lparr>out := out w @ [RequestAuthentication]\<rparr>)"
  using handleConfig_invalid_portal [of req w fv]
  by (simp add: handleConfig_def)

theorem handleConfig_validation_failure_witness:
  "handleConfig None (formRequest ''ab'' []) defaultedWorld =
     defaultedWorld
       \<lparr>conf := snd (validateForm None (formRequest ''ab'' []) (conf defaultedWorld)),
        out := out defaultedWorld @ configPortal True (formRequest ''ab'' [])
                 (snd (validateForm None (formRequest ''ab'' []) (conf defaultedWorld)))\<rparr>
   \<and> EEPROM (handleConfig None (formRequest ''ab'' []) defaultedWorld) = EEPROM defaultedWorld
   \<and> map valueBuffer (leaves (allParameters (conf (handleConfig None (formRequest ''ab'' []) defaultedWorld))))
       = map valueBuffer (leaves (allParameters (conf defaultedWorld)))
   \<and> errorMessage (thingNameParameter (conf (handleConfig None (formRequest ''ab'' []) defaultedWorld)))
       = Some ''Give a name with at least 3 characters.''
   \<and> FormInput ''Thing name'' ''iwcThingName'' ''ab'' (Some ''Give a name with at least 3 characters.'')
       \<in> set (out (handleConfig None (formRequest ''ab'' []) defaultedWorld))"
proof -
  let ?req = "formRequest ''ab'' []"
  note s = externalValidation_def clearedMessages_ids clearedMessages_misc defaultedWorld_fields
    formRequest_args
  have p: "authenticate ?req IOTWEBCONF_ADMIN_USER_NAME
             (apPasswordString (conf defaultedWorld))
           \<and> hasArg ?req ''iotSave'' \<and> \<not> fst (validateForm None ?req (conf defaultedWorld))"
    by (simp add: validateForm_fst Let_def s)
  note d = mp [OF handleConfig_validation_failure [of ?req defaultedWorld None, THEN conjunct1] p,
    unfolded Let_def]
  have l: "length (arg ?req (getId (thingNameParameter
             (snd (externalValidation None ?req (conf defaultedWorld)))))) < 3"
    by (simp add: s)
  have v: "visible (thingNameParameter (snd (externalValidation None ?req (conf defaultedWorld))))"
    by (simp add: s)
  note d5 = d [THEN conjunct2, THEN conjunct2, THEN conjunct2, THEN conjunct2]
  note m = mp [OF d5 [THEN conjunct2] l]
  have f: "FormInput ''Thing name'' ''iwcThingName'' ''ab'' (Some ''Give a name with at least 3 characters.'')
       \<in> set (out (handleConfig None ?req defaultedWorld))"
    using mp [OF m [THEN conjunct2] v] by (simp add: s)
  from d [THEN conjunct1] d [THEN conjunct2, THEN conjunct1] mp [OF d5 [THEN conjunct1] refl]
       m [THEN conjunct1] f
  show ?thesis
    by (intro conjI)
qed

lemma updated_groups:
  "systemParameters
     (set_customParameterGroups
        (update req (customParameterGroups (set_systemParameters (update req (systemParameters c)) c)))
        (set_systemParameters (update req (systemParameters c)) c))
   = update req (systemParameters c)"
  "customParameterGroups
     (set_customParameterGroups
        (update req (customParameterGroups (set_systemParameters (update req (systemParameters c)) c)))
        (set_systemParameters (update req (systemParameters c)) c))
   = update req (customParameterGroups c)"
  "hiddenParameters
     (set_customParameterGroups
        (update req (customParameterGroups (set_systemParameters (update req (systemParameters c)) c)))
        (set_systemParameters (update req (systemParameters c)) c))
   = hiddenParameters c"
  by (simp_all add: systemParameters_def customParameterGroups_def hiddenParameters_def)

lemma handleConfig_valid_hidden:
  "authenticate req IOTWEBCONF_ADMIN_USER_NAME (apPasswordString (conf w))
   \<Longrightarrow> hasArg req ''iotSave'' \<Longrightarrow> fst (validateForm fv req (conf w))
   \<Longrightarrow> hiddenParameters (conf (handleConfig fv req w))
         = hiddenParameters (snd (validateForm fv req (conf w)))"
  by (simp add: handleConfig_valid Let_def saveConfig_conf updated_groups)

lemma hiddenWorld_fields:
  "getId (thingNameParameter (conf hiddenWorld)) = ''iwcThingName''"
  "getId (apPasswordParameter (conf hiddenWorld)) = ''iwcApPassword''"
  "getLength (thingNameParameter (conf hiddenWorld)) = 33"
  "hiddenItems (conf hiddenWorld) = [Leaf hiddenLeaf]"
  by (simp_all add: hiddenWorld_def addHiddenParameter_def defaultedWorld_fields)
     (simp_all add: defaultedWorld_def freshWorld_def exampleConf_def IotWebConf_new_def
        allParameters_def systemParameters_def customParameterGroups_def hiddenParameters_def
        applyDefaultLeaf_def IOTWEBCONF_WORD_LEN_def)

lemma secretRequest_args:
  "arg secretRequest ''iwcThingName'' = ''newname''"
  "arg secretRequest ''iwcApPassword'' = []"
  "arg secretRequest ''secret'' = ''new''"
  "hasArg secretRequest ''iotSave''"
  "hasArg secretRequest ''secret''"
  "authenticate secretRequest u p"
  by (simp_all add: secretRequest_def formRequest_def arg_def hasArg_def)

lemma secretRequest_valid:
  "authenticate secretRequest IOTWEBCONF_ADMIN_USER_NAME
     (apPasswordString (conf hiddenWorld))
   \<and> hasArg secretRequest ''iotSave''
   \<and> fst (validateForm None secretRequest (conf hiddenWorld))"
  by (simp add: validateForm_fst Let_def externalValidation_def clearedMessages_ids
      hiddenWorld_fields secretRequest_args)

section \<open>Saving and loading again\<close>

lemma EEPROM_write_fold:
  "opened E = Some n \<Longrightarrow> start + len \<le> n \<Longrightarrow>
     fold (\<lambda>t E'. EEPROM_write (start + t) (f t) E') [0..<len] E =
       E\<lparr>cells := (\<lambda>a. if start \<le> a \<and> a < start + len then f (a - start)
                          else cells E a)\<rparr>"
proof (induction len)
  case 0
  then show ?case by (simp cong: conj_cong)
next
  case (Suc len)
  then have ih: "fold (\<lambda>t E'. EEPROM_write (start + t) (f t) E') [0..<len] E =
       E\<lparr>cells := (\<lambda>a. if start \<le> a \<and> a < start + len then f (a - start)
                          else cells E a)\<rparr>"
    by simp
  have "fold (\<lambda>t E'. EEPROM_write (start + t) (f t) E') [0..<Suc len] E =
          EEPROM_write (start + len) (f len)
            (fold (\<lambda>t E'. EEPROM_write (start + t) (f t) E') [0..<len] E)"
    by simp
  also have "\<dots> = E\<lparr>cells := (\<lambda>a. if start \<le> a \<and> a < start + Suc len
                                  then f (a - start) else cells E a)\<rparr>"
    using Suc.prems unfolding ih by (auto simp: EEPROM_write_def fun_eq_iff)
  finally show ?case .
qed

lemma writeEepromValue_cells:
  "opened E = Some n \<Longrightarrow> start + len \<le> n \<Longrightarrow>
     writeEepromValue E start data len =
       E\<lparr>cells := (\<lambda>a. if start \<le> a \<and> a < start + len then charAt data (a - start)
                          else cells E a)\<rparr>"
  unfolding writeEepromValue_def by (rule EEPROM_write_fold)

lemma readEepromValue_open:
  "opened E = Some n \<Longrightarrow> start + len \<le> n \<Longrightarrow>
     readEepromValue E start len = storedBytes E start len"
  by (simp add: readEepromValue_def storedBytes_def EEPROM_read_def)

lemma fold_concat_map:
  "(\<And>x s. x \<in> set xs \<Longrightarrow> h x s = fold g (k x) s) \<Longrightarrow>
     fold h xs s = fold g (concat (map k xs)) s"
  by (induction xs arbitrary: s) simp_all

lemma storeValue_flat:
  "storeValue f t s = fold (\<lambda>l. f (valueBuffer l) (getLength l)) (leaves t) s"
proof (induction t arbitrary: s)
  case (Leaf l)
  show ?case by simp
next
  case (Group i lb cs)
  show ?case
    by (simp add: fold_concat_map [where k = leaves, OF Group.IH])
qed

lemma sum_list_concat_map:
  "sum_list (concat (map f xs)) = (\<Sum>x\<leftarrow>xs. sum_list (f x) :: nat)"
  by (induction xs) simp_all

lemma getStorageSize_leaves:
  "getStorageSize t = sum_list (map getLength (leaves t))"
  by (induction t) (simp_all add: map_concat sum_list_concat_map comp_def cong: map_cong)


lemma length_leaf_bytes:
  "\<forall>l\<in>set ls. length (valueBuffer l) = getLength l \<Longrightarrow>
     length (concat (map valueBuffer ls)) = sum_list (map getLength ls)"
  by (induction ls) simp_all

lemma store_leaves:
  "opened E = Some n \<Longrightarrow> start + sum_list (map getLength ls) \<le> n \<Longrightarrow>
   \<forall>l\<in>set ls. length (valueBuffer l) = getLength l \<Longrightarrow>
     fold (\<lambda>l (E', start'). (writeEepromValue E' start' (valueBuffer l) (getLength l),
                               start' + getLength l)) ls (E, start)
     = (E\<lparr>cells := (\<lambda>a. if start \<le> a \<and> a < start + sum_list (map getLength ls)
                            then concat (map valueBuffer ls) ! (a - start)
                            else cells E a)\<rparr>,
        start + sum_list (map getLength ls))"
proof (induction ls arbitrary: E start)
  case Nil
  then show ?case by (simp cong: conj_cong)
next
  case (Cons l ls)
  let ?len = "getLength l"
  let ?E1 = "E\<lparr>cells := (\<lambda>a. if start \<le> a \<and> a < start + ?len
                              then charAt (valueBuffer l) (a - start) else cells E a)\<rparr>"
  have w: "writeEepromValue E start (valueBuffer l) ?len = ?E1"
    using Cons.prems writeEepromValue_cells [of E n start ?len "valueBuffer l"] by simp
  have o: "opened ?E1 = Some n"
    using Cons.prems by simp
  have b: "(start + ?len) + sum_list (map getLength ls) \<le> n"
    using Cons.prems by simp
  have c: "\<forall>l\<in>set ls. length (valueBuffer l) = getLength l"
    using Cons.prems by simp
  have len: "length (valueBuffer l) = ?len"
    using Cons.prems by simp
  note ih = Cons.IH [OF o b c]
  have f: "(\<lambda>a. if start + ?len \<le> a \<and> a < start + ?len + sum_list (map getLength ls)
                 then concat (map valueBuffer ls) ! (a - (start + ?len))
                 else cells ?E1 a)
           = (\<lambda>a. if start \<le> a \<and> a < start + sum_list (map getLength (l # ls))
                   then concat (map valueBuffer (l # ls)) ! (a - start)
                   else cells E a)"
  proof (rule ext)
    fix a
    let ?tot = "sum_list (map getLength ls)"
    consider "a < start" | "start \<le> a \<and> a < start + ?len"
      | "start + ?len \<le> a \<and> a < start + ?len + ?tot" | "start + ?len + ?tot \<le> a"
      by linarith
    then show "(if start + ?len \<le> a \<and> a < start + ?len + ?tot
                 then concat (map valueBuffer ls) ! (a - (start + ?len))
                 else cells ?E1 a)
           = (if start \<le> a \<and> a < start + sum_list (map getLength (l # ls))
                   then concat (map valueBuffer (l # ls)) ! (a - start)
                   else cells E a)"
    proof cases
      case 1
      then show ?thesis by simp
    next
      case 2
      then have "a - start < ?len" by linarith
      with 2 show ?thesis using len by (simp add: nth_append charAt_def)
    next
      case 3
      then have "\<not> a - start < ?len" "a - start - ?len = a - (start + ?len)"
        by linarith+
      with 3 show ?thesis using len by (simp add: nth_append)
    next
      case 4
      then show ?thesis by simp
    qed
  qed
  show ?case
    using ih unfolding f by (simp add: w add.assoc)
qed

lemma storedBytes_add:
  "storedBytes E s (a + b) = storedBytes E s a @ storedBytes E (s + a) b"
proof -
  have 1: "[0..<a + b] = [0..<a] @ [a..<a + b]"
    by (simp only: upt_add_eq_append [OF le0])
  have 2: "[a..<a + b] = map (\<lambda>i. i + a) [0..<b]"
    by (simp only: map_add_upt add.commute [of a b])
  have e: "s + (t + a) = s + a + t" for t
    by simp
  have 3: "map (\<lambda>t. cells E (s + t)) (map (\<lambda>i. i + a) [0..<b])
             = map (\<lambda>t. cells E (s + a + t)) [0..<b]"
    by (simp only: map_map comp_def e)
  show ?thesis
    unfolding storedBytes_def 1 map_append 2 3 ..
qed


lemma length_storedBytes: "length (storedBytes E s k) = k"
  by (simp add: storedBytes_def)

lemma inCapacity_Group: "inCapacity (Group i lb cs) \<longleftrightarrow> (\<forall>c\<in>set cs. inCapacity c)"
  by (auto simp: inCapacity_def list_all_iff)

lemma inCapacity_length:
  "inCapacity t \<Longrightarrow> length (concat (map valueBuffer (leaves t))) = getStorageSize t"
  by (simp add: inCapacity_def list_all_iff length_leaf_bytes getStorageSize_leaves)

lemma loadValues_same:
  assumes "\<And>c s. c \<in> set cs \<Longrightarrow>
             storedBytes E s (getStorageSize c) = concat (map valueBuffer (leaves c)) \<Longrightarrow>
             inCapacity c \<Longrightarrow> s + getStorageSize c \<le> n \<Longrightarrow>
             loadValue f c s = (c, s + getStorageSize c)"
    and "storedBytes E s (sum_list (map getStorageSize cs))
           = concat (map valueBuffer (concat (map leaves cs)))"
    and "\<forall>c\<in>set cs. inCapacity c"
    and "s + sum_list (map getStorageSize cs) \<le> n"
  shows "loadValues f cs s = (cs, s + sum_list (map getStorageSize cs))"
  using assms
proof (induction cs arbitrary: s)
  case Nil
  then show ?case by simp
next
  case (Cons c cs)
  let ?k = "getStorageSize c"
  let ?m = "sum_list (map getStorageSize cs)"
  have cap: "inCapacity c"
    using Cons.prems(3) by simp
  have "storedBytes E s ?k @ storedBytes E (s + ?k) ?m
          = concat (map valueBuffer (leaves c)) @ concat (map valueBuffer (concat (map leaves cs)))"
    using Cons.prems(2) by (simp add: storedBytes_add)
  then have st: "storedBytes E s ?k = concat (map valueBuffer (leaves c))"
    and st': "storedBytes E (s + ?k) ?m = concat (map valueBuffer (concat (map leaves cs)))"
    using inCapacity_length [OF cap] by (simp_all add: length_storedBytes)
  have 1: "loadValue f c s = (c, s + ?k)"
    using Cons.prems(4) by (intro Cons.prems(1) st cap) simp_all
  have 2: "loadValues f cs (s + ?k) = (cs, s + ?k + ?m)"
  proof (rule Cons.IH [OF _ st'])
    show "loadValue f c' s' = (c', s' + getStorageSize c')"
      if "c' \<in> set cs" "storedBytes E s' (getStorageSize c') = concat (map valueBuffer (leaves c'))"
         "inCapacity c'" "s' + getStorageSize c' \<le> n" for c' s'
      using that by (intro Cons.prems(1)) simp_all
    show "\<forall>c\<in>set cs. inCapacity c"
      using Cons.prems(3) by simp
    show "s + ?k + ?m \<le> n"
      using Cons.prems(4) by simp
  qed
  show ?case
    by (simp add: 1 2 add.assoc)
qed

lemma loadValue_same:
  "opened E = Some n \<Longrightarrow>
   storedBytes E s (getStorageSize t) = concat (map valueBuffer (leaves t)) \<Longrightarrow>
   inCapacity t \<Longrightarrow> s + getStorageSize t \<le> n \<Longrightarrow>
     loadValue (\<lambda>len start'. (readEepromValue E start' len, start' + len)) t s
       = (t, s + getStorageSize t)"
proof (induction t arbitrary: s)
  case (Leaf l)
  then show ?case
    by (simp add: readEepromValue_open)
next
  case (Group i lb cs)
  have "loadValues (\<lambda>len start'. (readEepromValue E start' len, start' + len)) cs s
          = (cs, s + sum_list (map getStorageSize cs))"
  proof (rule loadValues_same [where E = E and n = n])
    show "loadValue (\<lambda>len start'. (readEepromValue E start' len, start' + len)) c s'
            = (c, s' + getStorageSize c)"
      if "c \<in> set cs" "storedBytes E s' (getStorageSize c) = concat (map valueBuffer (leaves c))"
         "inCapacity c" "s' + getStorageSize c \<le> n" for c s'
      using that Group.prems(1) by (intro Group.IH)
    show "storedBytes E s (sum_list (map getStorageSize cs))
            = concat (map valueBuffer (concat (map leaves cs)))"
      using Group.prems(2) by simp
    show "\<forall>c\<in>set cs. inCapacity c"
      using Group.prems(3) by (simp add: inCapacity_Group)
    show "s + sum_list (map getStorageSize cs) \<le> n"
      using Group.prems(4) by simp
  qed
  then show ?case
    by simp
qed


lemma length_leafOffsets: "length (leafOffsets s ls) = length ls"
  by (induction ls arbitrary: s) simp_all

lemma leafOffsets_append:
  "leafOffsets s (xs @ ys) = leafOffsets s xs @ leafOffsets (s + sum_list (map getLength xs)) ys"
  by (induction xs arbitrary: s) (simp_all add: add.assoc)

lemma loadValues_offsets:
  assumes "\<And>c s. c \<in> set cs \<Longrightarrow>
             snd (loadValue f c s) = s + getStorageSize c
             \<and> leaves (fst (loadValue f c s)) = map2 g (leafOffsets s (leaves c)) (leaves c)"
  shows "snd (loadValues f cs s) = s + sum_list (map getStorageSize cs)
         \<and> concat (map leaves (fst (loadValues f cs s)))
             = map2 g (leafOffsets s (concat (map leaves cs))) (concat (map leaves cs))"
  using assms
proof (induction cs arbitrary: s)
  case Nil
  then show ?case by simp
next
  case (Cons c cs)
  obtain c' s1 where 1: "loadValue f c s = (c', s1)"
    by (cases "loadValue f c s")
  obtain cs' s2 where 2: "loadValues f cs s1 = (cs', s2)"
    by (cases "loadValues f cs s1")
  from Cons.prems [of c s] 1
  have a: "s1 = s + getStorageSize c"
    and b: "leaves c' = map2 g (leafOffsets s (leaves c)) (leaves c)"
    by simp_all
  have "snd (loadValues f cs s1) = s1 + sum_list (map getStorageSize cs)
         \<and> concat (map leaves (fst (loadValues f cs s1)))
             = map2 g (leafOffsets s1 (concat (map leaves cs))) (concat (map leaves cs))"
    by (rule Cons.IH) (simp add: Cons.prems)
  with 2 have c: "s2 = s1 + sum_list (map getStorageSize cs)"
    and d: "concat (map leaves cs')
              = map2 g (leafOffsets s1 (concat (map leaves cs))) (concat (map leaves cs))"
    by simp_all
  have e: "loadValues f (c # cs) s = (c' # cs', s2)"
    by (simp add: 1 2)
  have d': "concat (map leaves cs')
              = map2 g (leafOffsets (s + sum_list (map getLength (leaves c)))
                          (concat (map leaves cs))) (concat (map leaves cs))"
    using d a by (simp add: getStorageSize_leaves)
  have c': "s2 = s + (getStorageSize c + sum_list (map getStorageSize cs))"
    using c a by simp
  show ?case
    unfolding e by (simp add: b c' d' leafOffsets_append length_leafOffsets)
qed

lemma loadValue_offsets:
  "snd (loadValue (\<lambda>len start'. (readEepromValue E start' len, start' + len)) t s)
     = s + getStorageSize t
   \<and> leaves (fst (loadValue (\<lambda>len start'. (readEepromValue E start' len, start' + len)) t s))
       = map2 (\<lambda>off l. l\<lparr>valueBuffer := readEepromValue E off (getLength l)\<rparr>)
           (leafOffsets s (leaves t)) (leaves t)"
proof (induction t arbitrary: s)
  case (Leaf l)
  show ?case by simp
next
  case (Group i lb cs)
  from loadValues_offsets [where cs = cs and s = s, OF Group.IH]
  show ?case
    by (simp add: split_beta)
qed

lemma loadValue_shape:
  "allParameters (set_allParameters (fst (loadValue f (allParameters c) s)) c)
     = fst (loadValue f (allParameters c) s)"
  by (simp add: allParameters_def systemParameters_def customParameterGroups_def
      hiddenParameters_def split: prod.splits)

lemma set_allParameters_same: "set_allParameters (allParameters c) c = c"
  by (simp add: allParameters_def systemParameters_def customParameterGroups_def
      hiddenParameters_def)


lemma saveConfigVersion_cells:
  "opened E = Some n \<Longrightarrow> IOTWEBCONF_CONFIG_START + IOTWEBCONF_CONFIG_VERSION_LENGTH \<le> n \<Longrightarrow>
     saveConfigVersion c E =
       E\<lparr>cells := (\<lambda>a. if IOTWEBCONF_CONFIG_START \<le> a
                             \<and> a < IOTWEBCONF_CONFIG_START + IOTWEBCONF_CONFIG_VERSION_LENGTH
                          then configVersionAt c (a - IOTWEBCONF_CONFIG_START)
                          else cells E a)\<rparr>"
  unfolding saveConfigVersion_def by (rule EEPROM_write_fold)

lemma saveConfig_EEPROM:
  assumes "inCapacity (allParameters (conf w))"
  shows "EEPROM (saveConfig w) =
     (EEPROM w)\<lparr>cells :=
        (\<lambda>a. if IOTWEBCONF_CONFIG_START + IOTWEBCONF_CONFIG_VERSION_LENGTH \<le> a
                 \<and> a < IOTWEBCONF_CONFIG_START + IOTWEBCONF_CONFIG_VERSION_LENGTH
                          + initConfig (conf w)
              then concat (map valueBuffer (leaves (allParameters (conf w))))
                     ! (a - (IOTWEBCONF_CONFIG_START + IOTWEBCONF_CONFIG_VERSION_LENGTH))
              else if IOTWEBCONF_CONFIG_START \<le> a
                      \<and> a < IOTWEBCONF_CONFIG_START + IOTWEBCONF_CONFIG_VERSION_LENGTH
              then configVersionAt (conf w) (a - IOTWEBCONF_CONFIG_START)
              else cells (EEPROM w) a),
        opened := None,
        begun := begun (EEPROM w)
                   @ [IOTWEBCONF_CONFIG_START + IOTWEBCONF_CONFIG_VERSION_LENGTH
                        + initConfig (conf w)]\<rparr>"
proof -
  let ?S = "IOTWEBCONF_CONFIG_START + IOTWEBCONF_CONFIG_VERSION_LENGTH"
  let ?N = "?S + initConfig (conf w)"
  let ?ls = "leaves (allParameters (conf w))"
  let ?E1 = "EEPROM_begin ?N (EEPROM w)"
  let ?E2 = "saveConfigVersion (conf w) ?E1"
  let ?wr = "\<lambda>data len (E', start'). (writeEepromValue E' start' data len, start' + len)"
  have o1: "opened ?E1 = Some ?N"
    by (simp add: EEPROM_begin_def)
  have e2: "?E2 = ?E1\<lparr>cells := (\<lambda>a. if IOTWEBCONF_CONFIG_START \<le> a \<and> a < ?S
                          then configVersionAt (conf w) (a - IOTWEBCONF_CONFIG_START)
                          else cells ?E1 a)\<rparr>"
    by (rule saveConfigVersion_cells [OF o1]) simp
  have o2: "opened ?E2 = Some ?N"
    unfolding e2 by (simp add: EEPROM_begin_def)
  have tot: "initConfig (conf w) = sum_list (map getLength ?ls)"
    by (simp add: initConfig_def getStorageSize_leaves)
  have cap: "\<forall>l\<in>set ?ls. length (valueBuffer l) = getLength l"
    using assms by (simp add: inCapacity_def list_all_iff)
  have "storeValue ?wr (allParameters (conf w)) (?E2, ?S)
          = fold (\<lambda>l (E', start'). (writeEepromValue E' start' (valueBuffer l) (getLength l),
                               start' + getLength l)) ?ls (?E2, ?S)"
    by (simp add: storeValue_flat)
  also have "\<dots> = (?E2\<lparr>cells := (\<lambda>a. if ?S \<le> a \<and> a < ?S + sum_list (map getLength ?ls)
                            then concat (map valueBuffer ?ls) ! (a - ?S)
                            else cells ?E2 a)\<rparr>,
                     ?S + sum_list (map getLength ?ls))"
    by (rule store_leaves [OF o2 _ cap]) (simp add: tot)
  finally have st: "fst (storeValue ?wr (allParameters (conf w)) (?E2, ?S))
      = ?E2\<lparr>cells := (\<lambda>a. if ?S \<le> a \<and> a < ?S + sum_list (map getLength ?ls)
                            then concat (map valueBuffer ?ls) ! (a - ?S)
                            else cells ?E2 a)\<rparr>"
    by simp
  have "EEPROM (saveConfig w) = EEPROM_end (fst (storeValue ?wr (allParameters (conf w)) (?E2, ?S)))"
    by (simp add: saveConfig_def Let_def)
  also have "\<dots> = EEPROM_end (?E2\<lparr>cells := (\<lambda>a. if ?S \<le> a \<and> a < ?S + sum_list (map getLength ?ls)
                            then concat (map valueBuffer ?ls) ! (a - ?S)
                            else cells ?E2 a)\<rparr>)"
    by (simp only: st)
  also have "\<dots> = (EEPROM w)\<lparr>cells :=
        (\<lambda>a. if ?S \<le> a \<and> a < ?S + initConfig (conf w)
              then concat (map valueBuffer ?ls) ! (a - ?S)
              else if IOTWEBCONF_CONFIG_START \<le> a \<and> a < ?S
              then configVersionAt (conf w) (a - IOTWEBCONF_CONFIG_START)
              else cells (EEPROM w) a),
        opened := None,
        begun := begun (EEPROM w) @ [?N]\<rparr>"
    unfolding e2 by (simp add: EEPROM_end_def EEPROM_begin_def tot cong: if_cong)
  finally show ?thesis .
qed

lemma stored_leaves:
  "(\<And>a. s \<le> a \<Longrightarrow> a < s + sum_list (map getLength ls) \<Longrightarrow>
          cells E a = concat (map valueBuffer ls) ! (a - s)) \<Longrightarrow>
   \<forall>l\<in>set ls. length (valueBuffer l) = getLength l \<Longrightarrow>
     map2 (\<lambda>off l. storedBytes E off (getLength l)) (leafOffsets s ls) ls = map valueBuffer ls"
proof (induction ls arbitrary: s)
  case Nil
  show ?case by simp
next
  case (Cons l ls)
  have len: "length (valueBuffer l) = getLength l"
    using Cons.prems(2) by simp
  have "storedBytes E s (getLength l) = map (\<lambda>t. valueBuffer l ! t) [0..<getLength l]"
    unfolding storedBytes_def
  proof (rule map_cong [OF refl])
    fix t assume "t \<in> set [0..<getLength l]"
    then have t: "t < getLength l" by simp
    then have "cells E (s + t) = concat (map valueBuffer (l # ls)) ! (s + t - s)"
      by (intro Cons.prems(1)) simp_all
    then show "cells E (s + t) = valueBuffer l ! t"
      using t len by (simp add: nth_append)
  qed
  then have h: "storedBytes E s (getLength l) = valueBuffer l"
    using len by (simp add: map_nth [of "valueBuffer l", unfolded len])
  have r: "map2 (\<lambda>off l. storedBytes E off (getLength l)) (leafOffsets (s + getLength l) ls) ls
             = map valueBuffer ls"
  proof (rule Cons.IH)
    fix a assume a: "s + getLength l \<le> a" "a < s + getLength l + sum_list (map getLength ls)"
    then have "cells E a = concat (map valueBuffer (l # ls)) ! (a - s)"
      by (intro Cons.prems(1)) simp_all
    moreover from a have "\<not> a - s < getLength l" "a - s - getLength l = a - (s + getLength l)"
      by linarith+
    ultimately show "cells E a = concat (map valueBuffer ls) ! (a - (s + getLength l))"
      using len by (simp add: nth_append)
  next
    show "\<forall>l\<in>set ls. length (valueBuffer l) = getLength l"
      using Cons.prems(2) by simp
  qed
  show ?case
    by (simp add: h r)
qed

lemma loadConfig_conf_valid:
  "fst (loadConfig w) \<Longrightarrow>
     conf (snd (loadConfig w)) =
       set_allParameters
         (fst (loadValue (\<lambda>len start'. (readEepromValue (EEPROM (snd (loadConfig w))) start' len,
                                          start' + len))
                 (allParameters (conf w))
                 (IOTWEBCONF_CONFIG_START + IOTWEBCONF_CONFIG_VERSION_LENGTH)))
         (conf w)"
  by (simp add: loadConfig_def Let_def split: if_splits)

lemma loadConfig_offsets:
  "fst (loadConfig w) \<Longrightarrow>
     leaves (allParameters (conf (snd (loadConfig w)))) =
       map2 (\<lambda>off l. l\<lparr>valueBuffer :=
                         readEepromValue (EEPROM (snd (loadConfig w))) off (getLength l)\<rparr>)
         (leafOffsets (IOTWEBCONF_CONFIG_START + IOTWEBCONF_CONFIG_VERSION_LENGTH)
            (leaves (allParameters (conf w))))
         (leaves (allParameters (conf w)))"
  by (simp only: loadConfig_conf_valid loadValue_shape loadValue_offsets)

lemma load_after_save:
  assumes cap: "inCapacity (allParameters (conf w))"
  shows "fst (loadConfig (saveConfig w))"
    and "conf (snd (loadConfig (saveConfig w))) = conf w"
proof -
  let ?S = "IOTWEBCONF_CONFIG_START + IOTWEBCONF_CONFIG_VERSION_LENGTH"
  let ?N = "?S + initConfig (conf w)"
  let ?t = "allParameters (conf w)"
  let ?bytes = "concat (map valueBuffer (leaves ?t))"
  let ?w1 = "saveConfig w"
  let ?E = "EEPROM (snd (loadConfig ?w1))"
  have c1: "conf ?w1 = conf w"
    by (rule saveConfig_conf)
  have E: "?E = EEPROM_begin ?N (EEPROM ?w1)"
    by (simp add: loadConfig_EEPROM c1)
  have o: "opened ?E = Some ?N"
    by (simp add: E EEPROM_begin_def)
  have cl: "cells ?E a =
       (if ?S \<le> a \<and> a < ?N then ?bytes ! (a - ?S)
        else if IOTWEBCONF_CONFIG_START \<le> a \<and> a < ?S
             then configVersionAt (conf w) (a - IOTWEBCONF_CONFIG_START)
             else cells (EEPROM w) a)" for a
    by (simp add: E saveConfig_EEPROM [OF cap] EEPROM_begin_def)
  have v: "fst (loadConfig ?w1)"
    unfolding loadConfig_fst c1 E [symmetric] testConfigVersion_iff
  proof (intro allI impI)
    fix t assume t: "t < IOTWEBCONF_CONFIG_VERSION_LENGTH"
    then have "EEPROM_read ?E (IOTWEBCONF_CONFIG_START + t) = cells ?E (IOTWEBCONF_CONFIG_START + t)"
      using o by (simp add: EEPROM_read_def)
    also have "\<dots> = configVersionAt (conf w) t"
      using t by (simp add: cl)
    finally show "EEPROM_read ?E (IOTWEBCONF_CONFIG_START + t) = configVersionAt (conf w) t" .
  qed
  have len: "length ?bytes = getStorageSize ?t"
    by (rule inCapacity_length [OF cap])
  have "storedBytes ?E ?S (getStorageSize ?t) = map (\<lambda>t. ?bytes ! t) [0..<getStorageSize ?t]"
    unfolding storedBytes_def
    by (rule map_cong [OF refl]) (simp add: cl initConfig_def)
  then have sb: "storedBytes ?E ?S (getStorageSize ?t) = ?bytes"
    by (simp add: map_nth [of ?bytes, unfolded len])
  have "loadValue (\<lambda>len start'. (readEepromValue ?E start' len, start' + len)) ?t ?S
          = (?t, ?S + getStorageSize ?t)"
    by (rule loadValue_same [OF o sb cap]) (simp add: initConfig_def)
  then have "conf (snd (loadConfig ?w1)) = set_allParameters ?t (conf w)"
    by (simp add: loadConfig_conf_valid [OF v] c1)
  then show "conf (snd (loadConfig ?w1)) = conf w"
    by (simp add: set_allParameters_same)
  show "fst (loadConfig ?w1)"
    by (rule v)
qed

lemma save_offsets:
  assumes cap: "inCapacity (allParameters (conf w))"
  shows "map2 (\<lambda>off l. storedBytes (EEPROM (saveConfig w)) off (getLength l))
           (leafOffsets (IOTWEBCONF_CONFIG_START + IOTWEBCONF_CONFIG_VERSION_LENGTH)
              (leaves (allParameters (conf w))))
           (leaves (allParameters (conf w)))
         = map valueBuffer (leaves (allParameters (conf w)))"
proof (rule stored_leaves)
  show "\<forall>l\<in>set (leaves (allParameters (conf w))). length (valueBuffer l) = getLength l"
    using cap by (simp add: inCapacity_def list_all_iff)
next
  let ?S = "IOTWEBCONF_CONFIG_START + IOTWEBCONF_CONFIG_VERSION_LENGTH"
  fix a assume "?S \<le> a" "a < ?S + sum_list (map getLength (leaves (allParameters (conf w))))"
  then show "cells (EEPROM (saveConfig w)) a
               = concat (map valueBuffer (leaves (allParameters (conf w)))) ! (a - ?S)"
    by (simp add: saveConfig_EEPROM [OF cap] initConfig_def getStorageSize_leaves)
qed

lemma hiddenWorld_inCapacity: "inCapacity (allParameters (conf hiddenWorld))"
  by (simp add: inCapacity_def leaves_allParameters leaves_groups hiddenWorld_fields
      hiddenLeaf_def)
     (simp add: hiddenWorld_def addHiddenParameter_def defaultedWorld_def freshWorld_def
        exampleConf_def IotWebConf_new_def allParameters_def systemParameters_def
        customParameterGroups_def hiddenParameters_def applyDefaultLeaf_def strncpy_def
        IOTWEBCONF_WORD_LEN_def IOTWEBCONF_PASSWORD_LEN_def)

lemma saveConfig_frame:
  "inCapacity (allParameters (conf w)) \<Longrightarrow>
   a < IOTWEBCONF_CONFIG_START
   \<or> IOTWEBCONF_CONFIG_START + IOTWEBCONF_CONFIG_VERSION_LENGTH + initConfig (conf w) \<le> a \<Longrightarrow>
     cells (EEPROM (saveConfig w)) a = cells (EEPROM w) a"
  by (auto simp: saveConfig_EEPROM)

text \<open>
  C1. When every leaf's buffer has the leaf's length, \<open>saveConfig\<close> followed by
  \<open>loadConfig\<close> returns true and gives back the object as it was, so every leaf's buffer
  holds the bytes it held at the save. \<open>saveConfig\<close> lays leaf \<open>k\<close> at the offset that is
  the start, the length of the version tag and the lengths of the leaves before it, and
  writes nothing outside the region from the start to the end of the last leaf;
  \<open>loadConfig\<close>, on any store whose version matches, reads leaf \<open>k\<close> from the same offset.
  The region that \<open>saveConfig\<close> opens and the region that \<open>loadConfig\<close> opens have the same
  size: the start, the length of the version tag and the lengths of all leaves.
\<close>

theorem saveConfig_loadConfig_roundtrip:
  "(inCapacity (allParameters (conf w)) \<longrightarrow>
      (let ls = leaves (allParameters (conf w));
           offs = leafOffsets (IOTWEBCONF_CONFIG_START + IOTWEBCONF_CONFIG_VERSION_LENGTH) ls;
           w1 = saveConfig w;
           r = loadConfig w1
       in fst r
          \<and> conf (snd r) = conf w
          \<and> map valueBuffer (leaves (allParameters (conf (snd r)))) = map valueBuffer ls
          \<and> map2 (\<lambda>off l. storedBytes (EEPROM w1) off (getLength l)) offs ls = map valueBuffer ls
          \<and> (\<forall>a. a < IOTWEBCONF_CONFIG_START
                   \<or> IOTWEBCONF_CONFIG_START + IOTWEBCONF_CONFIG_VERSION_LENGTH
                        + sum_list (map getLength ls) \<le> a
                \<longrightarrow> cells (EEPROM w1) a = cells (EEPROM w) a)
          \<and> opened (EEPROM (snd r))
              = Some (IOTWEBCONF_CONFIG_START + IOTWEBCONF_CONFIG_VERSION_LENGTH
                        + sum_list (map getLength ls))
          \<and> begun (EEPROM w1)
              = begun (EEPROM w)
                @ [IOTWEBCONF_CONFIG_START + IOTWEBCONF_CONFIG_VERSION_LENGTH
                     + sum_list (map getLength ls)]
          \<and> begun (EEPROM (snd r))
              = begun (EEPROM w1)
                @ [IOTWEBCONF_CONFIG_START + IOTWEBCONF_CONFIG_VERSION_LENGTH
                     + sum_list (map getLength ls)]
          \<and> opened (EEPROM w1) = None))
   \<and> (fst (loadConfig w0) \<longrightarrow>
        leaves (allParameters (conf (snd (loadConfig w0)))) =
          map2 (\<lambda>off l. l\<lparr>valueBuffer :=
                            readEepromValue (EEPROM (snd (loadConfig w0))) off (getLength l)\<rparr>)
            (leafOffsets (IOTWEBCONF_CONFIG_START + IOTWEBCONF_CONFIG_VERSION_LENGTH)
               (leaves (allParameters (conf w0))))
            (leaves (allParameters (conf w0)))
        \<and> opened (EEPROM (snd (loadConfig w0)))
            = Some (IOTWEBCONF_CONFIG_START + IOTWEBCONF_CONFIG_VERSION_LENGTH
                      + sum_list (map getLength (leaves (allParameters (conf w0)))))
        \<and> begun (EEPROM (snd (loadConfig w0)))
            = begun (EEPROM w0)
              @ [IOTWEBCONF_CONFIG_START + IOTWEBCONF_CONFIG_VERSION_LENGTH
                   + sum_list (map getLength (leaves (allParameters (conf w0))))])"
proof (intro conjI impI)
  assume cap: "inCapacity (allParameters (conf w))"
  let ?ls = "leaves (allParameters (conf w))"
  let ?S = "IOTWEBCONF_CONFIG_START + IOTWEBCONF_CONFIG_VERSION_LENGTH"
  note r = load_after_save [OF cap]
  have tot: "initConfig (conf w) = sum_list (map getLength ?ls)"
    by (simp add: initConfig_def getStorageSize_leaves)
  have b: "map valueBuffer (leaves (allParameters (conf (snd (loadConfig (saveConfig w))))))
             = map valueBuffer ?ls"
    by (simp only: r(2))
  have fr: "\<forall>a. a < IOTWEBCONF_CONFIG_START \<or> ?S + sum_list (map getLength ?ls) \<le> a
                \<longrightarrow> cells (EEPROM (saveConfig w)) a = cells (EEPROM w) a"
    using saveConfig_frame [OF cap] by (simp add: tot)
  have op: "opened (EEPROM (snd (loadConfig (saveConfig w))))
              = Some (?S + sum_list (map getLength ?ls))"
    by (simp add: loadConfig_EEPROM saveConfig_conf EEPROM_begin_def tot)
  have bs: "begun (EEPROM (saveConfig w)) = begun (EEPROM w) @ [?S + sum_list (map getLength ?ls)]"
    by (simp add: saveConfig_EEPROM [OF cap] tot)
  have bl: "begun (EEPROM (snd (loadConfig (saveConfig w))))
              = begun (EEPROM (saveConfig w)) @ [?S + sum_list (map getLength ?ls)]"
    by (simp add: loadConfig_EEPROM saveConfig_conf EEPROM_begin_def tot)
  have cl: "opened (EEPROM (saveConfig w)) = None"
    by (simp add: saveConfig_EEPROM [OF cap])
  show "let ls = ?ls; offs = leafOffsets ?S ls; w1 = saveConfig w; r = loadConfig w1
       in fst r
          \<and> conf (snd r) = conf w
          \<and> map valueBuffer (leaves (allParameters (conf (snd r)))) = map valueBuffer ls
          \<and> map2 (\<lambda>off l. storedBytes (EEPROM w1) off (getLength l)) offs ls = map valueBuffer ls
          \<and> (\<forall>a. a < IOTWEBCONF_CONFIG_START \<or> ?S + sum_list (map getLength ls) \<le> a
                \<longrightarrow> cells (EEPROM w1) a = cells (EEPROM w) a)
          \<and> opened (EEPROM (snd r)) = Some (?S + sum_list (map getLength ls))
          \<and> begun (EEPROM w1) = begun (EEPROM w) @ [?S + sum_list (map getLength ls)]
          \<and> begun (EEPROM (snd r)) = begun (EEPROM w1) @ [?S + sum_list (map getLength ls)]
          \<and> opened (EEPROM w1) = None"
    unfolding Let_def using r b save_offsets [OF cap] fr op bs bl cl by (intro conjI)
next
  assume "fst (loadConfig w0)"
  then show "leaves (allParameters (conf (snd (loadConfig w0)))) =
          map2 (\<lambda>off l. l\<lparr>valueBuffer :=
                            readEepromValue (EEPROM (snd (loadConfig w0))) off (getLength l)\<rparr>)
            (leafOffsets (IOTWEBCONF_CONFIG_START + IOTWEBCONF_CONFIG_VERSION_LENGTH)
               (leaves (allParameters (conf w0))))
            (leaves (allParameters (conf w0)))"
    by (rule loadConfig_offsets)
next
  show "opened (EEPROM (snd (loadConfig w0)))
            = Some (IOTWEBCONF_CONFIG_START + IOTWEBCONF_CONFIG_VERSION_LENGTH
                      + sum_list (map getLength (leaves (allParameters (conf w0)))))"
    by (simp add: loadConfig_EEPROM EEPROM_begin_def initConfig_def getStorageSize_leaves)
next
  show "begun (EEPROM (snd (loadConfig w0)))
            = begun (EEPROM w0)
              @ [IOTWEBCONF_CONFIG_START + IOTWEBCONF_CONFIG_VERSION_LENGTH
                   + sum_list (map getLength (leaves (allParameters (conf w0))))]"
    by (simp add: loadConfig_EEPROM EEPROM_begin_def initConfig_def getStorageSize_leaves)
qed

theorem saveConfig_loadConfig_roundtrip_witness:
  "fst (loadConfig (saveConfig hiddenWorld))
   \<and> conf (snd (loadConfig (saveConfig hiddenWorld))) = conf hiddenWorld
   \<and> leaves (allParameters (conf (snd (loadConfig (saveConfig hiddenWorld))))) =
       map2 (\<lambda>off l. l\<lparr>valueBuffer :=
                readEepromValue (EEPROM (snd (loadConfig (saveConfig hiddenWorld)))) off (getLength l)\<rparr>)
         (leafOffsets (IOTWEBCONF_CONFIG_START + IOTWEBCONF_CONFIG_VERSION_LENGTH)
            (leaves (allParameters (conf (saveConfig hiddenWorld)))))
         (leaves (allParameters (conf (saveConfig hiddenWorld))))
   \<and> begun (EEPROM (saveConfig hiddenWorld)) = [74]
   \<and> begun (EEPROM (snd (loadConfig (saveConfig hiddenWorld)))) = [74, 74]"
proof -
  note t = saveConfig_loadConfig_roundtrip [of hiddenWorld "saveConfig hiddenWorld"]
  note a = mp [OF t [THEN conjunct1] hiddenWorld_inCapacity, unfolded Let_def]
  note b = mp [OF t [THEN conjunct2] a [THEN conjunct1]]
  note a6 = a [THEN conjunct2, THEN conjunct2, THEN conjunct2, THEN conjunct2, THEN conjunct2,
               THEN conjunct2]
  have n: "IOTWEBCONF_CONFIG_START + IOTWEBCONF_CONFIG_VERSION_LENGTH
             + sum_list (map getLength (leaves (allParameters (conf hiddenWorld)))) = 74"
    by (simp add: leaves_allParameters leaves_groups hiddenWorld_fields hiddenLeaf_def
        IOTWEBCONF_CONFIG_START_def IOTWEBCONF_CONFIG_VERSION_LENGTH_def)
       (simp add: hiddenWorld_def addHiddenParameter_def defaultedWorld_def freshWorld_def
        exampleConf_def IotWebConf_new_def allParameters_def systemParameters_def
        customParameterGroups_def hiddenParameters_def applyDefaultLeaf_def
        IOTWEBCONF_WORD_LEN_def IOTWEBCONF_PASSWORD_LEN_def)
  have e: "begun (EEPROM hiddenWorld) = []"
    by (simp add: hiddenWorld_def defaultedWorld_def freshWorld_def freshStore_def)
  have g1: "begun (EEPROM (saveConfig hiddenWorld)) = [74]"
    using a6 [THEN conjunct1] by (simp add: n e)
  have g2: "begun (EEPROM (snd (loadConfig (saveConfig hiddenWorld)))) = [74, 74]"
    using a6 [THEN conjunct2, THEN conjunct1] by (simp add: n g1)
  from a [THEN conjunct1] a [THEN conjunct2, THEN conjunct1] b [THEN conjunct1] g1 g2
  show ?thesis
    by (intro conjI)
qed

section \<open>Saving from the config portal\<close>

lemma saveConfig_out:
  "out (saveConfig w) =
     out w @ (if configSavingCallback (conf w) then [ConfigSaving (initConfig (conf w))] else [])
           @ (if configSavedCallback (conf w) then [ConfigSaved] else [])"
  by (simp add: saveConfig_def Let_def)

lemma saveConfig_closed: "opened (EEPROM (saveConfig w)) = None"
  by (simp add: saveConfig_def Let_def EEPROM_end_def)

lemma length_strncpy: "length dst \<le> n \<Longrightarrow> length (strncpy dst src n) = n"
  by (simp add: strncpy_def)

lemma updated_inCapacity:
  assumes "inCapacity (allParameters c)"
  shows "inCapacity (allParameters
           (set_customParameterGroups
              (update req (customParameterGroups
                 (set_systemParameters (update req (systemParameters c)) c)))
              (set_systemParameters (update req (systemParameters c)) c)))"
proof -
  have u: "length (valueBuffer (updateLeaf req l)) = getLength (updateLeaf req l)"
    if "length (valueBuffer l) = getLength l" for l
    using that by (simp add: updateLeaf_def length_strncpy)
  show ?thesis
    using assms
    by (auto simp: inCapacity_def list_all_iff leaves_allParameters updated_groups leaves_update u)
qed

text \<open>
  C8, as the code has it. For an authenticated submission that carries \<open>iotSave\<close> and
  passes validation, \<open>handleConfig\<close> updates every leaf of the system group and of the
  custom groups from the submission and leaves the hidden group as it was. It then saves:
  the saving hooks are called if set, the store is closed again, and, the buffers being of
  their leaves' lengths, the store holds the version tag at its head and behind it every
  leaf of \<open>_allParameters\<close> as updated, in a region of the size of tag and leaves. Last it
  sends the page that says the configuration was saved, with its length in the header.
\<close>

theorem handleConfig_save:
  "authenticate req IOTWEBCONF_ADMIN_USER_NAME (apPasswordString (conf w))
   \<and> hasArg req ''iotSave'' \<and> fst (validateForm fv req (conf w)) \<longrightarrow>
   (let c1 = snd (validateForm fv req (conf w));
        w' = handleConfig fv req w;
        c' = conf w';
        ls = leaves (allParameters c');
        region = IOTWEBCONF_CONFIG_START + IOTWEBCONF_CONFIG_VERSION_LENGTH
                   + sum_list (map getLength ls);
        p = htmlFormatProvider c';
        page = replace ''{v}'' ''Config ESP'' (getHead p) @ getScript p @ getStyle p
               @ getHeadExtension p @ getHeadEnd p @ ''Configuration saved. ''
               @ ''Return to <a href='' @ [CHR 0x27] @ ''/'' @ [CHR 0x27] @ ''>home page</a>.''
               @ getEnd p
    in systemParameters c' = update req (systemParameters c1)
       \<and> customParameterGroups c' = update req (customParameterGroups c1)
       \<and> hiddenParameters c' = hiddenParameters c1
       \<and> leaves (systemParameters c') = map (updateLeaf req) (leaves (systemParameters c1))
       \<and> leaves (customParameterGroups c')
           = map (updateLeaf req) (leaves (customParameterGroups c1))
       \<and> out w' =
           out w
           @ (if configSavingCallback c' then [ConfigSaving (sum_list (map getLength ls))] else [])
           @ (if configSavedCallback c' then [ConfigSaved] else [])
           @ [SendHeader ''Content-Length'' (decimal (length page)) False,
              Send 200 ''text/html; charset=UTF-8'' page]
       \<and> opened (EEPROM w') = None
       \<and> (inCapacity (allParameters c1) \<longrightarrow>
            map2 (\<lambda>off l. storedBytes (EEPROM w') off (getLength l))
              (leafOffsets (IOTWEBCONF_CONFIG_START + IOTWEBCONF_CONFIG_VERSION_LENGTH) ls) ls
              = map valueBuffer ls
            \<and> (\<forall>t<IOTWEBCONF_CONFIG_VERSION_LENGTH.
                  cells (EEPROM w') (IOTWEBCONF_CONFIG_START + t) = configVersionAt c' t)
            \<and> begun (EEPROM w') = begun (EEPROM w) @ [region]))"
proof (intro impI, elim conjE)
  assume a: "authenticate req IOTWEBCONF_ADMIN_USER_NAME (apPasswordString (conf w))"
    and h: "hasArg req ''iotSave''" and v: "fst (validateForm fv req (conf w))"
  let ?c1 = "snd (validateForm fv req (conf w))"
  let ?c2 = "set_systemParameters (update req (systemParameters ?c1)) ?c1"
  let ?c3 = "set_customParameterGroups (update req (customParameterGroups ?c2)) ?c2"
  let ?w1 = "saveConfig (w\<lparr>conf := ?c3\<rparr>)"
  let ?w' = "handleConfig fv req w"
  let ?ls = "leaves (allParameters ?c3)"
  let ?S = "IOTWEBCONF_CONFIG_START + IOTWEBCONF_CONFIG_VERSION_LENGTH"
  let ?p = "htmlFormatProvider ?c3"
  let ?page = "replace ''{v}'' ''Config ESP'' (getHead ?p) @ getScript ?p @ getStyle ?p
               @ getHeadExtension ?p @ getHeadEnd ?p @ ''Configuration saved. ''
               @ ''Return to <a href='' @ [CHR 0x27] @ ''/'' @ [CHR 0x27] @ ''>home page</a>.''
               @ getEnd ?p"
  have w': "?w' = ?w1\<lparr>out := out ?w1 @ savedPage ?c3\<rparr>"
    using handleConfig_valid [OF a h v] by (simp add: Let_def)
  then have c: "conf ?w' = ?c3"
    by (simp add: saveConfig_conf)
  have E: "EEPROM ?w' = EEPROM ?w1"
    by (simp add: w')
  have g: "systemParameters ?c3 = update req (systemParameters ?c1)"
          "customParameterGroups ?c3 = update req (customParameterGroups ?c1)"
          "hiddenParameters ?c3 = hiddenParameters ?c1"
    by (rule updated_groups)+
  have l: "leaves (systemParameters ?c3) = map (updateLeaf req) (leaves (systemParameters ?c1))"
          "leaves (customParameterGroups ?c3)
             = map (updateLeaf req) (leaves (customParameterGroups ?c1))"
    unfolding g by (rule leaves_update)+
  have tot: "initConfig ?c3 = sum_list (map getLength ?ls)"
    by (simp add: initConfig_def getStorageSize_leaves)
  have sp: "savedPage ?c3 = [SendHeader ''Content-Length'' (decimal (length ?page)) False,
                            Send 200 ''text/html; charset=UTF-8'' ?page]"
    by (simp only: savedPage_def Let_def)
  have o1: "out ?w' = out ?w1 @ savedPage ?c3"
    by (simp add: w')
  have o2: "out ?w1 =
           out w
           @ (if configSavingCallback ?c3 then [ConfigSaving (initConfig ?c3)] else [])
           @ (if configSavedCallback ?c3 then [ConfigSaved] else [])"
    by (simp add: saveConfig_out)
  have o: "out ?w' =
           out w
           @ (if configSavingCallback ?c3 then [ConfigSaving (sum_list (map getLength ?ls))]
              else [])
           @ (if configSavedCallback ?c3 then [ConfigSaved] else [])
           @ [SendHeader ''Content-Length'' (decimal (length ?page)) False,
              Send 200 ''text/html; charset=UTF-8'' ?page]"
    unfolding o1 o2 sp tot by (simp only: append_assoc)
  have cl: "opened (EEPROM ?w') = None"
    unfolding E by (rule saveConfig_closed)
  have st: "inCapacity (allParameters ?c1) \<longrightarrow>
            map2 (\<lambda>off l. storedBytes (EEPROM ?w') off (getLength l)) (leafOffsets ?S ?ls) ?ls
              = map valueBuffer ?ls
            \<and> (\<forall>t<IOTWEBCONF_CONFIG_VERSION_LENGTH.
                  cells (EEPROM ?w') (IOTWEBCONF_CONFIG_START + t) = configVersionAt ?c3 t)
            \<and> begun (EEPROM ?w') = begun (EEPROM w) @ [?S + sum_list (map getLength ?ls)]"
  proof (intro impI)
    assume cap1: "inCapacity (allParameters ?c1)"
    have cap: "inCapacity (allParameters (conf (w\<lparr>conf := ?c3\<rparr>)))"
      using updated_inCapacity [OF cap1] by simp
    have 1: "map2 (\<lambda>off l. storedBytes (EEPROM ?w') off (getLength l)) (leafOffsets ?S ?ls) ?ls
              = map valueBuffer ?ls"
      using save_offsets [OF cap] unfolding E by simp
    have 2: "\<forall>t<IOTWEBCONF_CONFIG_VERSION_LENGTH.
                  cells (EEPROM ?w') (IOTWEBCONF_CONFIG_START + t) = configVersionAt ?c3 t"
      unfolding E by (simp add: saveConfig_EEPROM [OF cap])
    have 3: "begun (EEPROM ?w') = begun (EEPROM w) @ [?S + sum_list (map getLength ?ls)]"
      unfolding E using tot by (simp add: saveConfig_EEPROM [OF cap])
    from 1 2 3 show "map2 (\<lambda>off l. storedBytes (EEPROM ?w') off (getLength l))
              (leafOffsets ?S ?ls) ?ls
              = map valueBuffer ?ls
            \<and> (\<forall>t<IOTWEBCONF_CONFIG_VERSION_LENGTH.
                  cells (EEPROM ?w') (IOTWEBCONF_CONFIG_START + t) = configVersionAt ?c3 t)
            \<and> begun (EEPROM ?w') = begun (EEPROM w) @ [?S + sum_list (map getLength ?ls)]"
      by (intro conjI)
  qed
  show "let c1 = ?c1; w' = ?w'; c' = conf w'; ls = leaves (allParameters c');
        region = ?S + sum_list (map getLength ls);
        p = htmlFormatProvider c';
        page = replace ''{v}'' ''Config ESP'' (getHead p) @ getScript p @ getStyle p
               @ getHeadExtension p @ getHeadEnd p @ ''Configuration saved. ''
               @ ''Return to <a href='' @ [CHR 0x27] @ ''/'' @ [CHR 0x27] @ ''>home page</a>.''
               @ getEnd p
    in systemParameters c' = update req (systemParameters c1)
       \<and> customParameterGroups c' = update req (customParameterGroups c1)
       \<and> hiddenParameters c' = hiddenParameters c1
       \<and> leaves (systemParameters c') = map (updateLeaf req) (leaves (systemParameters c1))
       \<and> leaves (customParameterGroups c')
           = map (updateLeaf req) (leaves (customParameterGroups c1))
       \<and> out w' =
           out w
           @ (if configSavingCallback c' then [ConfigSaving (sum_list (map getLength ls))] else [])
           @ (if configSavedCallback c' then [ConfigSaved] else [])
           @ [SendHeader ''Content-Length'' (decimal (length page)) False,
              Send 200 ''text/html; charset=UTF-8'' page]
       \<and> opened (EEPROM w') = None
       \<and> (inCapacity (allParameters c1) \<longrightarrow>
            map2 (\<lambda>off l. storedBytes (EEPROM w') off (getLength l)) (leafOffsets ?S ls) ls
              = map valueBuffer ls
            \<and> (\<forall>t<IOTWEBCONF_CONFIG_VERSION_LENGTH.
                  cells (EEPROM w') (IOTWEBCONF_CONFIG_START + t) = configVersionAt c' t)
            \<and> begun (EEPROM w') = begun (EEPROM w) @ [region])"
    unfolding Let_def c using g l o cl st by (intro conjI)
qed

text \<open>
  The claim C8 as it is written fails: a hidden parameter is a leaf of \<open>_allParameters\<close>,
  which \<open>loadConfig\<close> and \<open>saveConfig\<close> traverse, and a valid submission that carries a value
  for it leaves it as it was.
\<close>

theorem handleConfig_hidden_counterexample:
  "authenticate secretRequest IOTWEBCONF_ADMIN_USER_NAME
     (apPasswordString (conf hiddenWorld))
   \<and> hasArg secretRequest ''iotSave''
   \<and> fst (validateForm None secretRequest (conf hiddenWorld))
   \<and> hiddenLeaf \<in> set (leaves (allParameters (conf hiddenWorld)))
   \<and> hasArg secretRequest (getId hiddenLeaf)
   \<and> leaves (hiddenParameters (conf (handleConfig None secretRequest hiddenWorld))) = [hiddenLeaf]
   \<and> valueBuffer (updateLeaf secretRequest hiddenLeaf) \<noteq> valueBuffer hiddenLeaf"
proof -
  note p = secretRequest_valid
  have m: "hiddenLeaf \<in> set (leaves (allParameters (conf hiddenWorld)))"
    by (simp add: leaves_allParameters leaves_groups hiddenWorld_fields)
  have i: "hasArg secretRequest (getId hiddenLeaf)"
    by (simp add: hiddenLeaf_def secretRequest_args)
  have "hiddenParameters (conf (handleConfig None secretRequest hiddenWorld))
          = hiddenParameters (snd (validateForm None secretRequest (conf hiddenWorld)))"
    by (rule handleConfig_valid_hidden
          [OF p [THEN conjunct1] p [THEN conjunct2, THEN conjunct1]
              p [THEN conjunct2, THEN conjunct2]])
  then have l: "leaves (hiddenParameters (conf (handleConfig None secretRequest hiddenWorld)))
                  = [hiddenLeaf]"
    by (simp add: leaves_groups validateForm_groups externalValidation_def clearedMessages_misc
        hiddenWorld_fields)
  have n: "valueBuffer (updateLeaf secretRequest hiddenLeaf) \<noteq> valueBuffer hiddenLeaf"
    by (simp add: updateLeaf_def hiddenLeaf_def secretRequest_args strncpy_def)
  from p m i l n show ?thesis
    by (intro conjI) simp_all
qed

lemma clearedMessages_fields:
  "thingNameParameter (clearedMessages c) = (thingNameParameter c)\<lparr>errorMessage := None\<rparr>"
  "apPasswordParameter (clearedMessages c) = (apPasswordParameter c)\<lparr>errorMessage := None\<rparr>"
  "systemItems (clearedMessages c) = map clearErrorMessage (systemItems c)"
  "customItems (clearedMessages c) = map clearErrorMessage (customItems c)"
  "htmlFormatProvider (clearedMessages c) = htmlFormatProvider c"
  "configSavingCallback (clearedMessages c) = configSavingCallback c"
  "configSavedCallback (clearedMessages c) = configSavedCallback c"
  by (simp_all add: clearedMessages_def systemParameters_def customParameterGroups_def)

lemma validateForm_None_inCapacity:
  assumes "inCapacity (allParameters c)"
  shows "inCapacity (allParameters (snd (validateForm None req c)))"
proof -
  have "map (\<lambda>l. (length (valueBuffer l), getLength l))
          (leaves (allParameters (snd (validateForm None req c))))
        = map (\<lambda>l. (length (valueBuffer l), getLength l)) (leaves (allParameters c))"
    by (simp add: leaves_allParameters leaves_groups validateForm_snd Let_def
        externalValidation_def clearedMessages_fields clearedMessages_misc
        leaves_clearErrorMessage map_concat comp_def)
  then have "list_all (\<lambda>p. fst p = snd p)
               (map (\<lambda>l. (length (valueBuffer l), getLength l))
                  (leaves (allParameters (snd (validateForm None req c)))))
             = list_all (\<lambda>p. fst p = snd p)
               (map (\<lambda>l. (length (valueBuffer l), getLength l)) (leaves (allParameters c)))"
    by simp
  then show ?thesis
    using assms by (simp add: inCapacity_def list_all_iff)
qed

lemma handleConfig_valid_fields:
  "authenticate req IOTWEBCONF_ADMIN_USER_NAME (apPasswordString (conf w))
   \<Longrightarrow> hasArg req ''iotSave'' \<Longrightarrow> fst (validateForm fv req (conf w))
   \<Longrightarrow> htmlFormatProvider (conf (handleConfig fv req w))
         = htmlFormatProvider (snd (validateForm fv req (conf w)))
       \<and> configSavingCallback (conf (handleConfig fv req w))
         = configSavingCallback (snd (validateForm fv req (conf w)))
       \<and> configSavedCallback (conf (handleConfig fv req w))
         = configSavedCallback (snd (validateForm fv req (conf w)))"
  by (simp add: handleConfig_valid Let_def saveConfig_conf systemParameters_def
      customParameterGroups_def)

lemma handleConfig_valid_version:
  "authenticate req IOTWEBCONF_ADMIN_USER_NAME (apPasswordString (conf w))
   \<Longrightarrow> hasArg req ''iotSave'' \<Longrightarrow> fst (validateForm fv req (conf w))
   \<Longrightarrow> configVersionAt (conf (handleConfig fv req w)) t
         = configVersionAt (snd (validateForm fv req (conf w))) t"
  by (simp add: handleConfig_valid Let_def saveConfig_conf systemParameters_def
      customParameterGroups_def configVersionAt_def)

lemma validateForm_version:
  "configVersionAt (snd (validateForm fv req c)) t
     = configVersionAt (snd (externalValidation fv req c)) t"
proof -
  have "configVersion (snd (validateForm fv req c))
          = configVersion (snd (externalValidation fv req c))"
       "configVersionBehind (snd (validateForm fv req c))
          = configVersionBehind (snd (externalValidation fv req c))"
    by (simp_all add: validateForm_snd Let_def)
  then show ?thesis
    by (simp only: configVersionAt_def)
qed

lemma clearedMessages_version:
  "configVersionAt (clearedMessages c) t = configVersionAt c t"
  by (simp add: clearedMessages_def systemParameters_def customParameterGroups_def
      configVersionAt_def)

lemma replace_example:
  "replace ''{v}'' ''Config ESP'' ''<head><title>{v}</title>'' = ''<head><title>Config ESP</title>''"
  by (simp add: replace.simps)

lemma decimal_example:
  "decimal (length
          (''<head><title>Config ESP</title><script></script><style></style></head><body>''
           @ ''Configuration saved. Return to <a href='' @ [CHR 0x27] @ ''/'' @ [CHR 0x27]
           @ ''>home page</a>.</body>'')) = ''140''"
proof -
  have "length
          (''<head><title>Config ESP</title><script></script><style></style></head><body>''
           @ ''Configuration saved. Return to <a href='' @ [CHR 0x27] @ ''/'' @ [CHR 0x27]
           @ ''>home page</a>.</body>'') = 140"
    by simp
  then show ?thesis
    by (simp only:) (simp add: decimal.simps)
qed

lemma getLength_updateLeaf: "getLength (updateLeaf req l) = getLength l"
  by (simp add: updateLeaf_def)

lemma validateForm_None_lengths:
  "map getLength (leaves (allParameters (snd (validateForm None req c))))
     = map getLength (leaves (allParameters c))"
  by (simp add: leaves_allParameters leaves_groups validateForm_snd Let_def
      externalValidation_def clearedMessages_fields clearedMessages_misc
      leaves_clearErrorMessage map_concat comp_def)

lemma handleConfig_valid_lengths:
  assumes "authenticate req IOTWEBCONF_ADMIN_USER_NAME (apPasswordString (conf w))"
    and "hasArg req ''iotSave''" and "fst (validateForm fv req (conf w))"
  shows "map getLength (leaves (allParameters (conf (handleConfig fv req w))))
         = map getLength (leaves (allParameters (snd (validateForm fv req (conf w)))))"
  using assms
  by (simp add: handleConfig_valid Let_def saveConfig_conf leaves_allParameters updated_groups
      leaves_update comp_def getLength_updateLeaf)

lemma stored_head:
  "map2 (\<lambda>off l. storedBytes E off (getLength l)) (leafOffsets S ls) ls = map valueBuffer ls
   \<Longrightarrow> ls = x # xs \<Longrightarrow> storedBytes E S (getLength x) = valueBuffer x"
  by simp

theorem handleConfig_save_witness:
  "cstr (getThingName (conf (handleConfig None secretRequest hiddenWorld))) = ''newname''
   \<and> hiddenParameters (conf (handleConfig None secretRequest hiddenWorld))
       = hiddenParameters (conf hiddenWorld)
   \<and> out (handleConfig None secretRequest hiddenWorld) =
       [SendHeader ''Content-Length'' ''140'' False,
        Send 200 ''text/html; charset=UTF-8''
          (''<head><title>Config ESP</title><script></script><style></style></head><body>''
           @ ''Configuration saved. Return to <a href='' @ [CHR 0x27] @ ''/'' @ [CHR 0x27]
           @ ''>home page</a>.</body>'')]
   \<and> opened (EEPROM (handleConfig None secretRequest hiddenWorld)) = None
   \<and> begun (EEPROM (handleConfig None secretRequest hiddenWorld)) = [74]
   \<and> storedBytes (EEPROM (handleConfig None secretRequest hiddenWorld)) 4 33
       = getThingName (conf (handleConfig None secretRequest hiddenWorld))
   \<and> map (cells (EEPROM (handleConfig None secretRequest hiddenWorld))) [0, 1, 2, 3] = ''init''"
proof -
  let ?c1 = "snd (validateForm None secretRequest (conf hiddenWorld))"
  let ?w = "handleConfig None secretRequest hiddenWorld"
  note v = secretRequest_valid
  note d = mp [OF handleConfig_save [of secretRequest hiddenWorld None] v, unfolded Let_def]
  note d1 = d [THEN conjunct1]
  note d3 = d [THEN conjunct2, THEN conjunct2, THEN conjunct1]
  note d5' = d [THEN conjunct2, THEN conjunct2, THEN conjunct2, THEN conjunct2, THEN conjunct2]
  note d6 = d5' [THEN conjunct1]
  note d7 = d5' [THEN conjunct2, THEN conjunct1]
  have cap: "inCapacity (allParameters ?c1)"
    by (rule validateForm_None_inCapacity [OF hiddenWorld_inCapacity])
  note d8 = mp [OF d5' [THEN conjunct2, THEN conjunct2] cap]
  have t: "thingNameParameter (conf ?w) = updateLeaf secretRequest (thingNameParameter ?c1)"
    using d1 by (simp add: systemParameters_def)
  have c1: "getId (thingNameParameter ?c1) = ''iwcThingName''"
           "getLength (thingNameParameter ?c1) = 33"
    by (simp_all add: validateForm_snd Let_def externalValidation_def clearedMessages_def
        systemParameters_def customParameterGroups_def hiddenWorld_fields)
  have n: "cstr (getThingName (conf ?w)) = ''newname''"
    by (simp add: getThingName_def t updateLeaf_def c1 secretRequest_args cstr_strncpy)
  have h: "hiddenParameters ?c1 = hiddenParameters (conf hiddenWorld)"
    by (simp add: hiddenParameters_def validateForm_groups externalValidation_def
        clearedMessages_misc)
  have h': "hiddenParameters (conf ?w) = hiddenParameters (conf hiddenWorld)"
    using d3 h by simp
  note f = handleConfig_valid_fields [OF v [THEN conjunct1] v [THEN conjunct2, THEN conjunct1]
             v [THEN conjunct2, THEN conjunct2]]
  have p: "htmlFormatProvider (conf ?w) = exampleProvider"
          "\<not> configSavingCallback (conf ?w)" "\<not> configSavedCallback (conf ?w)"
    by (simp_all add: f validateForm_snd Let_def externalValidation_def clearedMessages_fields)
       (simp_all add: hiddenWorld_def addHiddenParameter_def defaultedWorld_def freshWorld_def
          exampleConf_def IotWebConf_new_def allParameters_def systemParameters_def
          customParameterGroups_def hiddenParameters_def)
  have e: "out hiddenWorld = []" "begun (EEPROM hiddenWorld) = []"
    by (simp_all add: hiddenWorld_def defaultedWorld_def freshWorld_def freshStore_def)
  have pg: "replace ''{v}'' ''Config ESP'' (getHead (htmlFormatProvider (conf ?w)))
            @ getScript (htmlFormatProvider (conf ?w)) @ getStyle (htmlFormatProvider (conf ?w))
            @ getHeadExtension (htmlFormatProvider (conf ?w))
            @ getHeadEnd (htmlFormatProvider (conf ?w))
            @ ''Configuration saved. '' @ ''Return to <a href='' @ [CHR 0x27] @ ''/''
            @ [CHR 0x27] @ ''>home page</a>.'' @ getEnd (htmlFormatProvider (conf ?w))
          = (''<head><title>Config ESP</title><script></script><style></style></head><body>''
           @ ''Configuration saved. Return to <a href='' @ [CHR 0x27] @ ''/'' @ [CHR 0x27]
           @ ''>home page</a>.</body>'')"
    by (simp add: p exampleProvider_def replace_example)
  have o: "out ?w =
       [SendHeader ''Content-Length'' ''140'' False,
        Send 200 ''text/html; charset=UTF-8''
          (''<head><title>Config ESP</title><script></script><style></style></head><body>''
           @ ''Configuration saved. Return to <a href='' @ [CHR 0x27] @ ''/'' @ [CHR 0x27]
           @ ''>home page</a>.</body>'')]"
    using d6 unfolding pg decimal_example by (simp add: p e)
  have r: "IOTWEBCONF_CONFIG_START + IOTWEBCONF_CONFIG_VERSION_LENGTH
             + sum_list (map getLength (leaves (allParameters (conf ?w)))) = 74"
    unfolding handleConfig_valid_lengths [OF v [THEN conjunct1] v [THEN conjunct2, THEN conjunct1]
                v [THEN conjunct2, THEN conjunct2]] validateForm_None_lengths
    by (simp add: leaves_allParameters leaves_groups hiddenWorld_fields hiddenLeaf_def
        IOTWEBCONF_CONFIG_START_def IOTWEBCONF_CONFIG_VERSION_LENGTH_def)
       (simp add: hiddenWorld_def addHiddenParameter_def defaultedWorld_def freshWorld_def
        exampleConf_def IotWebConf_new_def allParameters_def systemParameters_def
        customParameterGroups_def hiddenParameters_def applyDefaultLeaf_def
        IOTWEBCONF_WORD_LEN_def IOTWEBCONF_PASSWORD_LEN_def)
  have b: "begun (EEPROM ?w) = [74]"
    using d8 [THEN conjunct2, THEN conjunct2] by (simp add: r e)
  have tl: "getLength (thingNameParameter (conf ?w)) = 33"
    by (simp add: t getLength_updateLeaf c1)
  have ls: "leaves (allParameters (conf ?w))
              = thingNameParameter (conf ?w) # tl (leaves (allParameters (conf ?w)))"
    by (simp add: leaves_allParameters leaves_groups)
  have sb: "storedBytes (EEPROM ?w) 4 33 = getThingName (conf ?w)"
    using stored_head [OF d8 [THEN conjunct1] ls]
    by (simp add: tl getThingName_def IOTWEBCONF_CONFIG_START_def
        IOTWEBCONF_CONFIG_VERSION_LENGTH_def)
  have cv: "configVersionAt (conf ?w) t = configVersionAt (conf hiddenWorld) t" for t
    by (simp add: handleConfig_valid_version [OF v [THEN conjunct1]
          v [THEN conjunct2, THEN conjunct1] v [THEN conjunct2, THEN conjunct2]]
        validateForm_version externalValidation_def clearedMessages_version)
  have hv: "map (configVersionAt (conf hiddenWorld)) [0, 1, 2, 3] = ''init''"
    by (simp add: configVersionAt_def hiddenWorld_def addHiddenParameter_def defaultedWorld_def
        freshWorld_def exampleConf_def IotWebConf_new_def allParameters_def
        systemParameters_def customParameterGroups_def hiddenParameters_def)
  have ce: "cells (EEPROM ?w) t = configVersionAt (conf hiddenWorld) t" if "t < 4" for t
    using d8 [THEN conjunct2, THEN conjunct1] that
    by (simp add: cv IOTWEBCONF_CONFIG_START_def IOTWEBCONF_CONFIG_VERSION_LENGTH_def)
  have vs: "map (cells (EEPROM ?w)) [0, 1, 2, 3] = ''init''"
    using hv by (simp add: ce)
  from n h' o d7 b sb vs show ?thesis
    by (intro conjI)
qed

end
